theory Spec2Isabelle
  imports Complex_Main "HOL-Library.Sublist" "HOL-Library.AList"
begin

section \<open>JavaScript values\<close>

text \<open>
  The two handlers of the repository (\<^verbatim>\<open>api/index.js\<close> and \<^verbatim>\<open>api/filesize.js\<close>) work on
  JSON data that comes from upstream services and from the request body. A value is
  what \<^verbatim>\<open>JSON.parse\<close> can produce, plus \<^verbatim>\<open>undefined\<close> (the result of reading a
  property that is not there). Numbers are IEEE doubles in the source; the code only
  compares them with \<^verbatim>\<open>0\<close> and tests their truthiness, so they are modelled by their
  rational value (\<^verbatim>\<open>-0\<close> is \<open>0\<close>; JSON has no NaN or infinity). An object is the
  association list of its own properties, in insertion order.
\<close>

datatype jsval =
    JUndefined
  | JNull
  | JBool bool
  | JNum rat
  | JStr string
  | JArr "jsval list"
  | JObj "(string \<times> jsval) list"

text \<open>An exception value: only its \<^verbatim>\<open>message\<close> is ever read by the code.\<close>

datatype js_error = JsError (err_message: string)

text \<open>\<^verbatim>\<open>!v\<close> is \<open>\<not> truthy v\<close>.\<close>

fun truthy :: "jsval \<Rightarrow> bool" where
  "truthy JUndefined = False"
| "truthy JNull = False"
| "truthy (JBool b) = b"
| "truthy (JNum n) = (n \<noteq> 0)"
| "truthy (JStr s) = (s \<noteq> [])"
| "truthy (JArr vs) = True"
| "truthy (JObj kvs) = True"

fun nullish :: "jsval \<Rightarrow> bool" where
  "nullish JUndefined = True"
| "nullish JNull = True"
| "nullish v = False"

text \<open>
  \<^verbatim>\<open>v.k\<close> for a receiver \<open>v\<close> that is neither \<^verbatim>\<open>null\<close> nor \<^verbatim>\<open>undefined\<close> (where the
  receiver can be nullish the model raises the TypeError itself). None of the property
  names the code reads (\<^verbatim>\<open>code\<close>, \<^verbatim>\<open>msg\<close>, \<^verbatim>\<open>data\<close>, \<^verbatim>\<open>play\<close>, \<^verbatim>\<open>status\<close>, \<^verbatim>\<open>text\<close>,
  ...) exists on the prototypes of strings, numbers, booleans, arrays or plain objects,
  so only an object's own properties can answer.
\<close>

fun getp :: "jsval \<Rightarrow> string \<Rightarrow> jsval" where
  "getp (JObj kvs) k = (case map_of kvs k of Some v \<Rightarrow> v | None \<Rightarrow> JUndefined)"
| "getp v k = JUndefined"

text \<open>\<^verbatim>\<open>a || b\<close>, \<^verbatim>\<open>a && b\<close> and \<^verbatim>\<open>a?.k\<close> (both operands are pure in every use).\<close>

definition js_or :: "jsval \<Rightarrow> jsval \<Rightarrow> jsval" where
  "js_or a b = (if truthy a then a else b)"

definition js_and :: "jsval \<Rightarrow> jsval \<Rightarrow> jsval" where
  "js_and a b = (if truthy a then b else a)"

definition opt_chain :: "jsval \<Rightarrow> string \<Rightarrow> jsval" where
  "opt_chain v k = (if nullish v then JUndefined else getp v k)"

text \<open>\<^verbatim>\<open>obj.k = v\<close> on a plain object: replaces in place or appends.\<close>

fun set_prop :: "string \<Rightarrow> jsval \<Rightarrow> jsval \<Rightarrow> jsval" where
  "set_prop k v (JObj kvs) = JObj (AList.update k v kvs)"
| "set_prop k v w = w"

subsection \<open>Conversion to string\<close>

text \<open>
  String concatenation and template literals convert their operand to a string. For
  JSON data the conversion raises a TypeError exactly when it meets an object with an
  own property \<^verbatim>\<open>toString\<close>: that property shadows \<^verbatim>\<open>Object.prototype.toString\<close> and is
  not callable, and \<^verbatim>\<open>valueOf\<close> (inherited, or own and not callable) yields no primitive.
  An array is joined with commas, \<^verbatim>\<open>null\<close> and \<^verbatim>\<open>undefined\<close> elements giving the empty
  string. The digits of a number are the engine's business: \<open>num\<close> is a parameter.
\<close>

fun stringifiable :: "jsval \<Rightarrow> bool" where
  "stringifiable (JArr vs) = (\<forall>v \<in> set vs. stringifiable v)"
| "stringifiable (JObj kvs) = (map_of kvs ''toString'' = None)"
| "stringifiable v = True"

fun join_comma :: "string list \<Rightarrow> string" where
  "join_comma [] = []"
| "join_comma [s] = s"
| "join_comma (s # t # ss) = s @ '','' @ join_comma (t # ss)"

fun to_str :: "(rat \<Rightarrow> string) \<Rightarrow> jsval \<Rightarrow> string" where
  "to_str num JUndefined = ''undefined''"
| "to_str num JNull = ''null''"
| "to_str num (JBool b) = (if b then ''true'' else ''false'')"
| "to_str num (JNum n) = num n"
| "to_str num (JStr s) = s"
| "to_str num (JArr vs) =
     join_comma (map (\<lambda>v. if nullish v then [] else to_str num v) vs)"
| "to_str num (JObj kvs) = ''[object Object]''"

definition js_string :: "(rat \<Rightarrow> string) \<Rightarrow> jsval \<Rightarrow> js_error + string" where
  "js_string num v =
     (if stringifiable v then Inr (to_str num v)
      else Inl (JsError ''Cannot convert object to primitive value''))"

section \<open>Platform detection\<close>

text \<open>
  The regular expressions of \<^verbatim>\<open>detectPlatform\<close> are alternatives of literal strings
  under the \<^verbatim>\<open>i\<close> flag, so \<^verbatim>\<open>re.test(url)\<close> is a case-insensitive substring test. Without
  the \<^verbatim>\<open>u\<close> flag no character outside ASCII is folded onto an ASCII letter.
\<close>

definition lower_char :: "char \<Rightarrow> char" where
  "lower_char c =
     (case map_of (zip ''ABCDEFGHIJKLMNOPQRSTUVWXYZ'' ''abcdefghijklmnopqrstuvwxyz'') c of
        Some l \<Rightarrow> l
      | None \<Rightarrow> c)"

fun contains :: "string \<Rightarrow> string \<Rightarrow> bool" where
  "contains pat [] = (pat = [])"
| "contains pat (c # cs) = (prefix pat (c # cs) \<or> contains pat cs)"

definition test_ci :: "string \<Rightarrow> string \<Rightarrow> bool" where
  "test_ci pat s = contains pat (map lower_char s)"

definition detectPlatform :: "string \<Rightarrow> string" where
  "detectPlatform url =
     (if test_ci ''tiktok.com'' url then ''tiktok''
      else if test_ci ''youtube'' url \<or> test_ci ''youtu.be'' url then ''youtube''
      else if test_ci ''instagram.com'' url then ''instagram''
      else if test_ci ''twitter.com'' url \<or> test_ci ''x.com'' url then ''twitter''
      else if test_ci ''facebook.com'' url \<or> test_ci ''fb.watch'' url then ''facebook''
      else ''unknown'')"

text \<open>
  The specification's reading: a table of platforms in priority order, each with its
  patterns; the first platform one of whose patterns occurs in the input wins, and
  \<^verbatim>\<open>unknown\<close> is the fallback.
\<close>

definition platform_table :: "(string \<times> string list) list" where
  "platform_table =
     [(''tiktok'', [''tiktok.com'']),
      (''youtube'', [''youtube'', ''youtu.be'']),
      (''instagram'', [''instagram.com'']),
      (''twitter'', [''twitter.com'', ''x.com'']),
      (''facebook'', [''facebook.com'', ''fb.watch''])]"

definition matches_platform :: "string \<Rightarrow> string \<times> string list \<Rightarrow> bool" where
  "matches_platform url row = list_ex (\<lambda>pat. test_ci pat url) (snd row)"

definition detect_spec :: "string \<Rightarrow> string" where
  "detect_spec url =
     (case find (matches_platform url) platform_table of
        Some row \<Rightarrow> fst row
      | None \<Rightarrow> ''unknown'')"

section \<open>The outside world\<close>

text \<open>
  What the handlers cannot compute is a parameter: the network, \<^verbatim>\<open>JSON.parse\<close>, the
  engine's number formatting and \<^verbatim>\<open>String.prototype.trim\<close>, the clock, and the
  \<^verbatim>\<open>NODE_ENV\<close> switch. Every theorem holds for every environment.

  The network answers a request knowing the whole history of requests of the current
  invocation (the last element is the request being answered), so nothing is assumed
  about two requests to the same address getting the same answer. A \<^verbatim>\<open>fetch\<close> promise
  is either rejected (network error, or the abort signal fired on timeout) or resolves
  to a response, whose body may in turn fail to be read.
\<close>

record request =
  req_method :: string
  req_url :: string
  req_headers :: "(string \<times> string) list"
  req_body :: "(string \<times> string) list option"

record response =
  resp_ok :: bool
  resp_headers :: "(string \<times> string) list"
  resp_text :: "js_error + string"

datatype fetch_outcome = Rejected js_error | Responded response

record env =
  net :: "request list \<Rightarrow> fetch_outcome"
  json_parse :: "string \<Rightarrow> jsval option"
  num_str :: "rat \<Rightarrow> string"
  str_trim :: "string \<Rightarrow> string"
  now_iso :: string
  development :: bool
  stack_of :: "js_error \<Rightarrow> string"
  float_format :: "jsval \<Rightarrow> string"
  big_double :: "nat \<Rightarrow> rat option"

text \<open>
  The effects of one invocation: the requests sent so far, and the \<^verbatim>\<open>debugLog\<close> array
  that the handler shares with the providers.
\<close>

record state =
  requests :: "request list"
  debugLog :: "string list"

definition push_log :: "string \<Rightarrow> state \<Rightarrow> state" where
  "push_log msg st = st\<lparr>debugLog := debugLog st @ [msg]\<rparr>"

definition fetch :: "env \<Rightarrow> request \<Rightarrow> state \<Rightarrow> fetch_outcome \<times> state" where
  "fetch env rq st =
     (let st' = st\<lparr>requests := requests st @ [rq]\<rparr> in (net env (requests st'), st'))"

subsection \<open>fetchUrl\<close>

record options =
  opt_method :: "string option"
  opt_headers :: "(string \<times> string) list option"
  opt_body :: "(string \<times> string) list option"

definition no_options :: options where
  "no_options = \<lparr>opt_method = None, opt_headers = None, opt_body = None\<rparr>"

text \<open>Object spread \<^verbatim>\<open>{...a, ...b}\<close>: the keys of \<open>a\<close>, overridden and extended by \<open>b\<close>.\<close>

definition spread :: "('k \<times> 'v) list \<Rightarrow> ('k \<times> 'v) list \<Rightarrow> ('k \<times> 'v) list" where
  "spread a b = fold (\<lambda>(k, v). AList.update k v) b a"

definition defaultHeaders :: "(string \<times> string) list" where
  "defaultHeaders =
     [(''User-Agent'',
       ''Mozilla/5.0 (Windows NT 10.0; Win64; x64) AppleWebKit/537.36 (KHTML, like Gecko) Chrome/120.0.0.0 Safari/537.36'')]"

text \<open>The body of the \<^verbatim>\<open>try\<close> block: anything raised here reaches the \<^verbatim>\<open>catch\<close>.\<close>

definition finalOptions :: "string \<Rightarrow> options \<Rightarrow> request" where
  "finalOptions url opts =
     \<lparr>req_method = (case opt_method opts of Some m \<Rightarrow> m | None \<Rightarrow> ''GET''),
      req_url = url,
      req_headers =
        spread defaultHeaders (case opt_headers opts of Some h \<Rightarrow> h | None \<Rightarrow> []),
      req_body = opt_body opts\<rparr>"

definition fetchUrl_try ::
  "env \<Rightarrow> string \<Rightarrow> options \<Rightarrow> state \<Rightarrow> (js_error + string) \<times> state" where
  "fetchUrl_try env url opts st =
     (case fetch env (finalOptions url opts) st of
        (Rejected e, st') \<Rightarrow> (Inl e, st')
      | (Responded r, st') \<Rightarrow> (resp_text r, st'))"

text \<open>
  The result type leaves room for an exception (\<open>Inl\<close>) so that its absence is a
  theorem; \<open>None\<close> is \<^verbatim>\<open>null\<close>.
\<close>

definition fetchUrl ::
  "env \<Rightarrow> string \<Rightarrow> options \<Rightarrow> state \<Rightarrow> (js_error + string option) \<times> state" where
  "fetchUrl env url opts st =
     (case fetchUrl_try env url opts st of
        (Inl e, st') \<Rightarrow> (Inr None, st')
      | (Inr t, st') \<Rightarrow> (Inr (Some t), st'))"

subsection \<open>encodeURIComponent\<close>

text \<open>
  A string is the sequence of bytes that encodes the JavaScript string's code units:
  UTF-8, except that an unpaired surrogate (U+D800 to U+DFFF), which UTF-8 proper
  cannot hold but a JSON request body can carry as an escape such as \<^verbatim>\<open>\ud800\<close>, is the
  three bytes \<open>ED\<close>, \<open>A0\<close> to \<open>BF\<close>, and a continuation byte. In UTF-8 proper the byte
  \<open>ED\<close> is never followed by \<open>A0\<close> to \<open>BF\<close>, so that pair marks exactly the unpaired
  surrogates.

  \<^verbatim>\<open>encodeURIComponent\<close> raises a URIError on a string with an unpaired surrogate, and
  otherwise escapes each byte that is not an unreserved character.
\<close>

fun has_lone_surrogate :: "string \<Rightarrow> bool" where
  "has_lone_surrogate (a # b # cs) =
     ((a = CHR 0xED \<and> 160 \<le> (of_char b :: nat) \<and> (of_char b :: nat) \<le> 191)
      \<or> has_lone_surrogate (b # cs))"
| "has_lone_surrogate cs = False"

definition uri_unreserved :: "char \<Rightarrow> bool" where
  "uri_unreserved c \<longleftrightarrow>
     c \<in> set ''ABCDEFGHIJKLMNOPQRSTUVWXYZabcdefghijklmnopqrstuvwxyz0123456789-_.!~*()''
     \<or> c = CHR 0x27"

definition hex_digit :: "nat \<Rightarrow> char" where
  "hex_digit n = ''0123456789ABCDEF'' ! n"

definition pct_encode :: "char \<Rightarrow> string" where
  "pct_encode c =
     (let n = (of_char c :: nat) in [CHR ''%'', hex_digit (n div 16), hex_digit (n mod 16)])"

definition uri_escape :: "string \<Rightarrow> string" where
  "uri_escape s = concat (map (\<lambda>c. if uri_unreserved c then [c] else pct_encode c) s)"

definition encodeURIComponent :: "string \<Rightarrow> js_error + string" where
  "encodeURIComponent s =
     (if has_lone_surrogate s then Inl (JsError ''URI malformed'') else Inr (uri_escape s))"

section \<open>Provider adapters\<close>

text \<open>\<^verbatim>\<open>if (resp) { try { data = JSON.parse(resp); } catch (e) { } }\<close>\<close>

definition try_parse :: "env \<Rightarrow> string option \<Rightarrow> jsval \<Rightarrow> jsval" where
  "try_parse env resp data =
     (case resp of
        None \<Rightarrow> data
      | Some t \<Rightarrow>
          if t = [] then data
          else (case json_parse env t of Some v \<Rightarrow> v | None \<Rightarrow> data))"

definition error_result :: "string \<Rightarrow> jsval" where
  "error_result t = JObj [(''status'', JStr ''error''), (''text'', JStr t)]"

subsection \<open>TikWM\<close>

definition tikwm_api :: string where
  "tikwm_api = ''https://www.tikwm.com/api/''"

definition tikwm_post :: "string \<Rightarrow> options" where
  "tikwm_post url =
     \<lparr>opt_method = Some ''POST'',
      opt_headers = Some
        [(''Content-Type'', ''application/x-www-form-urlencoded''),
         (''Accept'', ''application/json''),
         (''User-Agent'', ''Mozilla/5.0 (Windows NT 10.0; Win64; x64) AppleWebKit/537.36'')],
      opt_body = Some [(''url'', url), (''hd'', ''1'')]\<rparr>"

text \<open>The address of the GET retry, given what \<^verbatim>\<open>encodeURIComponent(url)\<close> returned.\<close>

definition tikwm_get_url :: "string \<Rightarrow> string" where
  "tikwm_get_url encoded = tikwm_api @ ''?url='' @ encoded @ ''&hd=1''"

text \<open>The condition of line 124: \<^verbatim>\<open>!data || (data.code !== undefined && data.code !== 0)\<close>.\<close>

definition tikwm_retry :: "jsval \<Rightarrow> bool" where
  "tikwm_retry data \<longleftrightarrow>
     \<not> truthy data \<or> (getp data ''code'' \<noteq> JUndefined \<and> getp data ''code'' \<noteq> JNum 0)"

text \<open>
  Lines 109 to 128: the POST attempt and the GET retry; the result is \<^verbatim>\<open>data\<close>. The
  template literal of line 126 calls \<^verbatim>\<open>encodeURIComponent\<close> outside any \<^verbatim>\<open>try\<close>, after
  the log entry and before the request: a URIError leaves the adapter there.
\<close>

definition tikwm_load :: "env \<Rightarrow> string \<Rightarrow> state \<Rightarrow> (js_error + jsval) \<times> state" where
  "tikwm_load env url st =
     (case fetchUrl env tikwm_api (tikwm_post url) (push_log ''TikWM trying POST'' st) of
        (Inl e, st1) \<Rightarrow> (Inl e, st1)
      | (Inr resp, st1) \<Rightarrow>
          let data = try_parse env resp JNull in
          if tikwm_retry data then
            (case encodeURIComponent url of
               Inl e \<Rightarrow> (Inl e, push_log ''TikWM POST failed/empty, trying GET'' st1)
             | Inr encoded \<Rightarrow>
                 (case fetchUrl env (tikwm_get_url encoded) no_options
                         (push_log ''TikWM POST failed/empty, trying GET'' st1) of
                    (Inl e, st2) \<Rightarrow> (Inl e, st2)
                  | (Inr resp2, st2) \<Rightarrow> (Inr (try_parse env resp2 data), st2)))
          else (Inr data, st1))"

definition variant :: "string \<Rightarrow> string \<Rightarrow> jsval \<Rightarrow> jsval \<Rightarrow> jsval" where
  "variant ty name url size_bytes =
     JObj [(''type'', JStr ty), (''name'', JStr name), (''url'', url),
           (''size_bytes'', size_bytes)]"

definition hdUrl :: "jsval \<Rightarrow> jsval" where
  "hdUrl video = js_or (js_or (getp video ''hdplay'') (getp video ''play'')) JNull"

definition sdUrl :: "jsval \<Rightarrow> jsval" where
  "sdUrl video = js_or (js_or (getp video ''play'') (getp video ''hdplay'')) JNull"

definition musicUrl :: "jsval \<Rightarrow> jsval" where
  "musicUrl video = js_or (getp video ''music'') JNull"

definition wmUrl :: "jsval \<Rightarrow> jsval" where
  "wmUrl video = js_or (getp video ''wmplay'') JNull"

definition audioUrl :: "jsval \<Rightarrow> jsval" where
  "audioUrl video = js_or (musicUrl video) (hdUrl video)"

text \<open>Lines 136 to 178: each \<^verbatim>\<open>variants.push\<close> appends one entry.\<close>

definition tikwm_variants :: "jsval \<Rightarrow> jsval list" where
  "tikwm_variants video =
     (if truthy (hdUrl video)
      then [variant ''video-hd'' ''HD NO WATERMARK (MP4)'' (hdUrl video)
              (js_or (js_or (getp video ''hd_size'') (getp video ''size'')) JNull)]
      else [])
     @ (if truthy (sdUrl video)
        then [variant ''video-sd'' ''NO WATERMARK (MP4)'' (sdUrl video)
                (js_or (js_or (getp video ''size'') (getp video ''hd_size'')) JNull)]
        else [])
     @ (if truthy (audioUrl video)
        then [variant ''audio'' ''MP3 AUDIO'' (audioUrl video)
                (js_or (opt_chain (getp video ''music_info'') ''size'') JNull)]
        else [])
     @ (if truthy (wmUrl video)
        then [variant ''video-watermark'' ''WITH WATERMARK (MP4)'' (wmUrl video)
                (js_or (getp video ''wm_size'') JNull)]
        else [])"

definition mainUrl :: "jsval \<Rightarrow> jsval" where
  "mainUrl video =
     js_or (js_or (js_or (js_or (hdUrl video) (sdUrl video)) (wmUrl video)) (musicUrl video))
       JNull"

text \<open>
  Lines 130 to 193. Reading \<^verbatim>\<open>video.hdplay\<close> raises a TypeError when \<^verbatim>\<open>data.data\<close> is
  \<^verbatim>\<open>null\<close> or missing, and the two string concatenations can raise as well.
\<close>

definition tikwm_build :: "env \<Rightarrow> jsval \<Rightarrow> js_error + jsval" where
  "tikwm_build env data =
     (if \<not> truthy data then Inr (error_result ''TikWM no response'')
      else if getp data ''code'' = JUndefined \<or> getp data ''code'' \<noteq> JNum 0 then
        (case js_string (num_str env) (js_or (getp data ''msg'') (JStr ''Unknown error'')) of
           Inl e \<Rightarrow> Inl e
         | Inr m \<Rightarrow> Inr (error_result (''TikWM: '' @ m)))
      else
        let video = getp data ''data'' in
        if nullish video then
          Inl (JsError (''Cannot read properties of '' @ to_str (num_str env) video
                        @ '' (reading 'hdplay')''))
        else if truthy (mainUrl video) then
          (case js_string (num_str env) (js_or (getp video ''id'') (JStr ''video'')) of
             Inl e \<Rightarrow> Inl e
           | Inr ident \<Rightarrow>
               Inr (JObj
                 [(''status'', JStr ''tunnel''),
                  (''url'', mainUrl video),
                  (''filename'', JStr (''tiktok_'' @ ident @ ''.mp4'')),
                  (''thumb'',
                     js_or (js_or (getp video ''cover'') (getp video ''origin_cover'')) JNull),
                  (''title'', js_or (getp video ''title'') (JStr ''TikTok Video'')),
                  (''author'',
                     js_or (js_and (getp video ''author'')
                                   (getp (getp video ''author'') ''nickname''))
                           (JStr ''TikTok User'')),
                  (''variants'', JArr (tikwm_variants video))]))
        else Inr (error_result ''Video URL not found in TikWM''))"

definition providerTikwm ::
  "env \<Rightarrow> string \<Rightarrow> jsval \<Rightarrow> jsval \<Rightarrow> string \<Rightarrow> state \<Rightarrow> (js_error + jsval) \<times> state"
  where
  "providerTikwm env url format quality platform st =
     (if platform \<noteq> ''tiktok'' then (Inr JNull, st)
      else case tikwm_load env url st of
             (Inl e, st') \<Rightarrow> (Inl e, st')
           | (Inr data, st') \<Rightarrow> (tikwm_build env data, st'))"

subsection \<open>Snaptik\<close>

definition snaptik_api :: string where
  "snaptik_api = ''https://api.tik.fail/api/grab''"

definition snaptik_post :: "string \<Rightarrow> options" where
  "snaptik_post url =
     \<lparr>opt_method = Some ''POST'',
      opt_headers = Some [(''Content-Type'', ''application/x-www-form-urlencoded'')],
      opt_body = Some [(''url'', url)]\<rparr>"

definition snaptik_result :: "jsval \<Rightarrow> jsval" where
  "snaptik_result data =
     JObj [(''status'', JStr ''tunnel''),
           (''url'', js_or (js_or (getp data ''video'') (getp data ''nwm_video_url'')) (JStr [])),
           (''filename'', JStr ''tiktok_snaptik.mp4''),
           (''title'', js_or (getp data ''desc'') (JStr ''TikTok Video''))]"

definition providerSnaptik ::
  "env \<Rightarrow> string \<Rightarrow> jsval \<Rightarrow> jsval \<Rightarrow> string \<Rightarrow> state \<Rightarrow> (js_error + jsval) \<times> state"
  where
  "providerSnaptik env url format quality platform st =
     (if platform \<noteq> ''tiktok'' then (Inr JNull, st)
      else case fetchUrl env snaptik_api (snaptik_post url)
                  (push_log ''Snaptik(tik.fail) trying'' st) of
             (Inl e, st1) \<Rightarrow> (Inl e, st1)
           | (Inr None, st1) \<Rightarrow> (Inr JNull, st1)
           | (Inr (Some t), st1) \<Rightarrow>
               if t = [] then (Inr JNull, st1)
               else (case json_parse env t of
                       None \<Rightarrow> (Inr JNull, st1)
                     | Some data \<Rightarrow>
                         if \<not> truthy data \<or> getp data ''status'' \<noteq> JStr ''success'' then
                           (case js_string (num_str env)
                                   (js_or (opt_chain data ''status'') (JStr ''unknown'')) of
                              Inl e \<Rightarrow> (Inl e, st1)
                            | Inr s \<Rightarrow> (Inr JNull, push_log (''Snaptik failed: '' @ s) st1))
                         else (Inr (snaptik_result data), st1)))"

text \<open>\<^verbatim>\<open>providerDouyin\<close> is disabled: it declines without doing anything.\<close>

definition providerDouyin ::
  "env \<Rightarrow> string \<Rightarrow> jsval \<Rightarrow> jsval \<Rightarrow> string \<Rightarrow> state \<Rightarrow> (js_error + jsval) \<times> state"
  where
  "providerDouyin env url format quality platform st = (Inr JNull, st)"

section \<open>The resolve-media handler\<close>

text \<open>
  A request as the handlers read it: the method, the body, whether
  \<^verbatim>\<open>req.query && req.query.debug\<close> is truthy, and \<^verbatim>\<open>req.query.url\<close> (absent: \<open>None\<close>).
  A response is the status code with the JSON document sent (\<open>None\<close> for \<^verbatim>\<open>end()\<close>).
\<close>

record http_req =
  rq_method :: string
  rq_body :: jsval
  rq_debug :: bool
  rq_url :: "string option"

record http_res =
  res_status :: nat
  res_body :: "jsval option"

definition json_res :: "nat \<Rightarrow> jsval \<Rightarrow> http_res" where
  "json_res code v = \<lparr>res_status = code, res_body = Some v\<rparr>"

text \<open>Line 63: \<^verbatim>\<open>result && result.status && result.status !== 'error'\<close>.\<close>

definition accepted :: "jsval \<Rightarrow> bool" where
  "accepted result \<longleftrightarrow>
     truthy result \<and> truthy (getp result ''status'') \<and> getp result ''status'' \<noteq> JStr ''error''"

type_synonym provider =
  "string \<Rightarrow> jsval \<Rightarrow> jsval \<Rightarrow> string \<Rightarrow> state \<Rightarrow> (js_error + jsval) \<times> state"

record chain =
  finalResult :: jsval
  lastError :: jsval
  world :: state

text \<open>The \<^verbatim>\<open>catch\<close> of the loop body.\<close>

definition on_exception :: "string \<Rightarrow> js_error \<Rightarrow> chain \<Rightarrow> chain" where
  "on_exception name e c =
     c\<lparr>lastError := JStr (err_message e),
       world := push_log (''Exception '' @ name @ '': '' @ err_message e) (world c)\<rparr>"

text \<open>
  The loop of lines 56 to 77 over the providers, each with its \<^verbatim>\<open>name\<close>. Returning
  without the recursive call is \<^verbatim>\<open>break\<close>. The template literal of line 71 converts
  \<^verbatim>\<open>result.text\<close> to a string after \<^verbatim>\<open>lastError\<close> has been assigned, inside the \<^verbatim>\<open>try\<close>.
\<close>

fun run_providers ::
  "env \<Rightarrow> (string \<times> provider) list \<Rightarrow> string \<Rightarrow> jsval \<Rightarrow> jsval \<Rightarrow> string \<Rightarrow> chain \<Rightarrow> chain"
  where
  "run_providers env [] url format quality platform c = c"
| "run_providers env ((name, provider) # rest) url format quality platform c =
     (if truthy (finalResult c) then c
      else
        case provider url format quality platform
               (push_log (''Trying provider: '' @ name) (world c)) of
          (Inl e, st) \<Rightarrow>
            run_providers env rest url format quality platform
              (on_exception name e (c\<lparr>world := st\<rparr>))
        | (Inr result, st) \<Rightarrow>
            if accepted result then
              c\<lparr>finalResult := result, world := push_log (''Success with '' @ name) st\<rparr>
            else if truthy result \<and> truthy (getp result ''text'') then
              (case js_string (num_str env) (getp result ''text'') of
                 Inr t \<Rightarrow>
                   run_providers env rest url format quality platform
                     (c\<lparr>lastError := getp result ''text'',
                        world := push_log (''Failed '' @ name @ '': '' @ t) st\<rparr>)
               | Inl e \<Rightarrow>
                   run_providers env rest url format quality platform
                     (on_exception name e (c\<lparr>lastError := getp result ''text'', world := st\<rparr>)))
            else run_providers env rest url format quality platform (c\<lparr>world := st\<rparr>))"

definition providers :: "env \<Rightarrow> (string \<times> provider) list" where
  "providers env =
     [(''providerTikwm'', providerTikwm env), (''providerSnaptik'', providerSnaptik env)]"

text \<open>Lines 31 to 38: a string body is parsed; if that fails it stays a string.\<close>

definition read_input :: "env \<Rightarrow> jsval \<Rightarrow> jsval" where
  "read_input env input =
     (case input of
        JStr s \<Rightarrow> (case json_parse env s of Some v \<Rightarrow> v | None \<Rightarrow> input)
      | _ \<Rightarrow> input)"

text \<open>\<^verbatim>\<open>typeof v === 'object'\<close>\<close>

fun is_object :: "jsval \<Rightarrow> bool" where
  "is_object JNull = True"
| "is_object (JArr vs) = True"
| "is_object (JObj kvs) = True"
| "is_object v = False"

definition with_debug :: "bool \<Rightarrow> state \<Rightarrow> jsval \<Rightarrow> jsval" where
  "with_debug dbg st v = (if dbg then set_prop ''debug'' (JArr (map JStr (debugLog st))) v else v)"

definition default_error :: string where
  "default_error = ''Server sibuk atau timeout''"

definition error_text :: "string \<Rightarrow> string" where
  "error_text m = ''Gagal memproses link. '' @ m @ ''.''"

text \<open>
  The \<^verbatim>\<open>try\<close> block of lines 29 to 90. It raises when \<^verbatim>\<open>input.url\<close> is truthy but not a
  string (no \<^verbatim>\<open>trim\<close> method), and when the template literal of line 86 cannot convert
  \<^verbatim>\<open>lastError\<close>.
\<close>

definition resolve_try :: "env \<Rightarrow> http_req \<Rightarrow> state \<Rightarrow> (js_error + http_res) \<times> state" where
  "resolve_try env req st =
     (let input = read_input env (rq_body req) in
      if \<not> truthy input \<or> \<not> is_object input \<or> \<not> truthy (getp input ''url'') then
        (Inr (json_res 200 (error_result ''URL diperlukan'')), st)
      else
        case getp input ''url'' of
          JStr u \<Rightarrow>
            let url = str_trim env u;
                format = js_or (getp input ''downloadMode'') (JStr ''auto'');
                quality = js_or (getp input ''videoQuality'') (JStr ''720'');
                platform = detectPlatform url;
                c = run_providers env (providers env) url format quality platform
                      \<lparr>finalResult = JNull, lastError = JStr [], world = st\<rparr>
            in if truthy (finalResult c) then
                 (Inr (json_res 200 (with_debug (rq_debug req) (world c) (finalResult c))),
                  world c)
               else
                 (case js_string (num_str env) (js_or (lastError c) (JStr default_error)) of
                    Inl e \<Rightarrow> (Inl e, world c)
                  | Inr m \<Rightarrow>
                      (Inr (json_res 200
                         (with_debug (rq_debug req) (world c) (error_result (error_text m)))),
                       world c))
        | _ \<Rightarrow> (Inl (JsError ''input.url.trim is not a function''), st))"

text \<open>
  The handler (lines 4 to 99). Each invocation starts with nothing sent and an empty
  \<^verbatim>\<open>debugLog\<close>. A \<^verbatim>\<open>stack\<close> property that is \<^verbatim>\<open>undefined\<close> is not part of the JSON sent.
\<close>

definition fresh :: state where
  "fresh = \<lparr>requests = [], debugLog = []\<rparr>"

definition resolve_handler :: "env \<Rightarrow> http_req \<Rightarrow> http_res \<times> state" where
  "resolve_handler env req =
     (if rq_method req = ''OPTIONS'' then (\<lparr>res_status = 200, res_body = None\<rparr>, fresh)
      else if rq_method req = ''GET'' then
        (json_res 200
           (JObj [(''status'', JStr ''ok''),
                  (''message'', JStr ''MediaDownloader API V3 is Online''),
                  (''server_time'', JStr (now_iso env))]),
         fresh)
      else if rq_method req \<noteq> ''POST'' then
        (json_res 405 (error_result ''Method not allowed''), fresh)
      else
        case resolve_try env req fresh of
          (Inr res, st) \<Rightarrow> (res, st)
        | (Inl globalError, st) \<Rightarrow>
            (json_res 200
               (JObj ([(''status'', JStr ''error''),
                       (''text'', JStr (''Server Error: ''
                          @ (if err_message globalError = [] then ''Unknown error''
                             else err_message globalError)))]
                      @ (if development env then [(''stack'', JStr (stack_of env globalError))]
                         else []))),
             st))"

section \<open>The size probe\<close>

text \<open>
  \<^verbatim>\<open>response.headers.get(name)\<close>: \<open>resp_headers\<close> is the content of the \<^verbatim>\<open>Headers\<close>
  object, names in lower case; \<open>None\<close> is \<^verbatim>\<open>null\<close>. A header value is a byte string.
\<close>

definition header_get :: "response \<Rightarrow> string \<Rightarrow> string option" where
  "header_get r name = map_of (resp_headers r) name"

definition str_truthy :: "string option \<Rightarrow> bool" where
  "str_truthy s = (case s of None \<Rightarrow> False | Some t \<Rightarrow> t \<noteq> [])"

definition is_digit :: "char \<Rightarrow> bool" where
  "is_digit c \<longleftrightarrow> c \<in> set ''0123456789''"

text \<open>
  \<^verbatim>\<open>contentRange.match(/\/(\d+)$/)\<close>, the captured group: the leftmost slash that is
  followed by digits only, and at least one, up to the end of the string.
\<close>

fun match_total :: "string \<Rightarrow> string option" where
  "match_total [] = None"
| "match_total (c # cs) =
     (if c = CHR ''/'' \<and> cs \<noteq> [] \<and> list_all is_digit cs then Some cs else match_total cs)"

text \<open>
  \<^verbatim>\<open>parseInt(s, 10)\<close>: leading white space, a sign, then the longest run of digits. The
  result is a double: a natural number up to \<open>2 ^ 53\<close> is itself, and a larger one is
  whatever the engine rounds it to, the environment's \<open>big_double\<close> (\<open>None\<close> for
  \<^verbatim>\<open>Infinity\<close>). The result \<open>None\<close> is NaN or an infinity; \<^verbatim>\<open>res.json\<close> writes \<^verbatim>\<open>null\<close>
  for both.
\<close>

definition js_space :: "char \<Rightarrow> bool" where
  "js_space c \<longleftrightarrow> c \<in> set [CHR 0x09, CHR 0x0A, CHR 0x0B, CHR 0x0C, CHR 0x0D, CHR 0x20, CHR 0xA0]"

definition digit_val :: "char \<Rightarrow> nat" where
  "digit_val c = of_char c - 48"

definition digits_value :: "string \<Rightarrow> nat" where
  "digits_value ds = foldl (\<lambda>n c. 10 * n + digit_val c) 0 ds"

definition parseInt10 :: "env \<Rightarrow> string \<Rightarrow> rat option" where
  "parseInt10 env s =
     (let t = dropWhile js_space s;
          neg = (t \<noteq> [] \<and> hd t = CHR ''-'');
          u = (if t \<noteq> [] \<and> (hd t = CHR ''-'' \<or> hd t = CHR ''+'') then tl t else t);
          ds = takeWhile is_digit u;
          n = digits_value ds;
          magnitude = (if n \<le> 2 ^ 53 then Some (of_nat n) else big_double env n)
      in if ds = [] then None
         else map_option (\<lambda>r. if neg then - r else r) magnitude)"

text \<open>
  \<^verbatim>\<open>formatBytes\<close>: the two guards of lines 77 and 78 in their order. Lines 79 to 83
  compute with \<^verbatim>\<open>Math.log\<close>, \<^verbatim>\<open>Math.pow\<close>, \<^verbatim>\<open>toFixed\<close> and \<^verbatim>\<open>parseFloat\<close> on doubles; that
  part is the environment's \<open>float_format\<close>.
\<close>

definition formatBytes :: "env \<Rightarrow> jsval \<Rightarrow> string" where
  "formatBytes env bytes =
     (if \<not> truthy bytes then ''Unknown''
      else if bytes = JNum 0 then ''0 Bytes''
      else float_format env bytes)"

definition probe_agent :: string where
  "probe_agent = ''Mozilla/5.0 (Windows NT 10.0; Win64; x64) AppleWebKit/537.36 (KHTML, like Gecko) Chrome/120.0.0.0 Safari/537.36''"

definition head_request :: "string \<Rightarrow> request" where
  "head_request url =
     \<lparr>req_method = ''HEAD'', req_url = url, req_headers = [(''User-Agent'', probe_agent)],
      req_body = None\<rparr>"

definition range_request :: "string \<Rightarrow> request" where
  "range_request url =
     \<lparr>req_method = ''GET'', req_url = url,
      req_headers = [(''User-Agent'', probe_agent), (''Range'', ''bytes=0-0'')],
      req_body = None\<rparr>"

text \<open>
  Lines 36 to 62, entered with a falsy \<open>sz\<close> (the source's \<^verbatim>\<open>size\<close>): the inner \<^verbatim>\<open>try\<close> with its \<^verbatim>\<open>catch\<close>,
  which only writes to the console.
\<close>

definition range_fallback ::
  "env \<Rightarrow> string \<Rightarrow> string option \<Rightarrow> state \<Rightarrow> string option \<times> state" where
  "range_fallback env url sz st =
     (case fetch env (range_request url) st of
        (Rejected e, st') \<Rightarrow> (sz, st')
      | (Responded rangeResponse, st') \<Rightarrow>
          if resp_ok rangeResponse then
            let contentRange = header_get rangeResponse ''content-range'';
                size1 = (if str_truthy contentRange
                         then (case match_total (the contentRange) of
                                 Some digits \<Rightarrow> Some digits
                               | None \<Rightarrow> sz)
                         else sz);
                size2 = (if \<not> str_truthy size1
                         then header_get rangeResponse ''content-length'' else size1)
            in (size2, st')
          else (sz, st'))"

text \<open>The payload of line 65 as \<^verbatim>\<open>res.json\<close> writes it.\<close>

definition probe_body :: "env \<Rightarrow> string option \<Rightarrow> string option \<Rightarrow> jsval" where
  "probe_body env sz type =
     JObj [(''size'',
              if str_truthy sz
              then (case parseInt10 env (the sz) of Some n \<Rightarrow> JNum n | None \<Rightarrow> JNull)
              else JNull),
           (''type'', case type of Some t \<Rightarrow> JStr t | None \<Rightarrow> JNull),
           (''formatted'',
              JStr (if str_truthy sz then formatBytes env (JStr (the sz)) else ''Unknown''))]"

definition filesize_handler :: "env \<Rightarrow> http_req \<Rightarrow> http_res \<times> state" where
  "filesize_handler env req =
     (if rq_method req = ''OPTIONS'' then (\<lparr>res_status = 200, res_body = None\<rparr>, fresh)
      else if \<not> str_truthy (rq_url req) then
        (json_res 400 (JObj [(''error'', JStr ''URL parameter is required'')]), fresh)
      else
        let url = the (rq_url req) in
        case fetch env (head_request url) fresh of
          (Rejected e, st) \<Rightarrow>
            (json_res 500
               (JObj [(''error'',
                       JStr (if err_message e = [] then ''Server error'' else err_message e))]),
             st)
        | (Responded r, st) \<Rightarrow>
            let sz = header_get r ''content-length'';
                type = header_get r ''content-type''
            in if \<not> str_truthy sz \<and> resp_ok r then
                 (case range_fallback env url sz st of
                    (sz', st') \<Rightarrow> (json_res 200 (probe_body env sz' type), st'))
               else (json_res 200 (probe_body env sz type), st))"

section \<open>Observations used by the statements\<close>

text \<open>
  What the TikWM adapter's two attempts deliver, read off the network: the body text of
  an outcome as \<^verbatim>\<open>fetchUrl\<close> returns it, and the JSON value it parses to (\<open>None\<close>: no
  body, an empty body or a syntax error).
\<close>

definition body_of :: "fetch_outcome \<Rightarrow> string option" where
  "body_of out =
     (case out of
        Rejected e \<Rightarrow> None
      | Responded r \<Rightarrow> (case resp_text r of Inl e \<Rightarrow> None | Inr t \<Rightarrow> Some t))"

definition parse_text :: "env \<Rightarrow> string option \<Rightarrow> jsval option" where
  "parse_text env b =
     (case b of None \<Rightarrow> None | Some t \<Rightarrow> if t = [] then None else json_parse env t)"

definition tikwm_post_request :: "string \<Rightarrow> request" where
  "tikwm_post_request url = finalOptions tikwm_api (tikwm_post url)"

definition tikwm_get_request :: "string \<Rightarrow> request" where
  "tikwm_get_request url = finalOptions (tikwm_get_url (uri_escape url)) no_options"

definition post_json :: "env \<Rightarrow> string \<Rightarrow> state \<Rightarrow> jsval option" where
  "post_json env url st =
     parse_text env (body_of (net env (requests st @ [tikwm_post_request url])))"

definition get_json :: "env \<Rightarrow> string \<Rightarrow> state \<Rightarrow> jsval option" where
  "get_json env url st =
     parse_text env
       (body_of (net env (requests st @ [tikwm_post_request url, tikwm_get_request url])))"

text \<open>
  The retry condition in the specification's words: the POST attempt yields no
  parseable JSON, or a payload whose status-code field is defined and non-zero.
\<close>

definition claimed_retry :: "jsval option \<Rightarrow> bool" where
  "claimed_retry p =
     (case p of
        None \<Rightarrow> True
      | Some d \<Rightarrow> getp d ''code'' \<noteq> JUndefined \<and> getp d ''code'' \<noteq> JNum 0)"

text \<open>The values \<^verbatim>\<open>!v\<close> holds for.\<close>

definition falsy_values :: "jsval list" where
  "falsy_values = [JUndefined, JNull, JBool False, JNum 0, JStr []]"

text \<open>The variants of a TikWM result, by type, in the order of the source.\<close>

definition variant_order :: "string list" where
  "variant_order = [''video-hd'', ''video-sd'', ''audio'', ''video-watermark'']"

definition variant_url :: "jsval \<Rightarrow> string \<Rightarrow> jsval" where
  "variant_url video ty =
     (if ty = ''video-hd'' then hdUrl video
      else if ty = ''video-sd'' then sdUrl video
      else if ty = ''audio'' then audioUrl video
      else if ty = ''video-watermark'' then wmUrl video
      else JUndefined)"

text \<open>The own property names of an object.\<close>

fun keys_of :: "jsval \<Rightarrow> string list" where
  "keys_of (JObj kvs) = map fst kvs"
| "keys_of v = []"






section \<open>Concrete environments\<close>

text \<open>
  Environments on which the definitions can be run. The network follows a script: the
  \<open>n\<close>-th request of an invocation gets the \<open>n\<close>-th outcome, and the connection fails
  once the script is exhausted. \<open>table_parse\<close> is \<^verbatim>\<open>JSON.parse\<close> on the few documents
  used below, and a syntax error elsewhere. No number above \<open>2 ^ 53\<close> is parsed below,
  so \<open>big_double\<close> is never asked.
\<close>

definition net_script :: "fetch_outcome list \<Rightarrow> request list \<Rightarrow> fetch_outcome" where
  "net_script script history =
     (if 0 < length history \<and> length history \<le> length script
      then script ! (length history - 1)
      else Rejected (JsError ''fetch failed''))"

definition ok_text :: "string \<Rightarrow> fetch_outcome" where
  "ok_text t = Responded \<lparr>resp_ok = True, resp_headers = [], resp_text = Inr t\<rparr>"

definition with_headers :: "bool \<Rightarrow> (string \<times> string) list \<Rightarrow> fetch_outcome" where
  "with_headers ok hs = Responded \<lparr>resp_ok = ok, resp_headers = hs, resp_text = Inr []\<rparr>"

definition doc_play :: string where
  "doc_play = ''{\"code\":0,\"data\":{\"play\":\"p\",\"wmplay\":\"w\"}}''"

definition doc_failed :: string where
  "doc_failed = ''{\"code\":-1,\"msg\":\"Url parsing is failed!\"}''"

definition doc_no_data :: string where
  "doc_no_data = ''{\"code\":0}''"

definition doc_odd_status :: string where
  "doc_odd_status = ''{\"status\":{\"toString\":1}}''"

definition doc_success :: string where
  "doc_success = ''{\"status\":\"success\"}''"

definition table_parse :: "string \<Rightarrow> jsval option" where
  "table_parse t =
     (if t = doc_play then
        Some (JObj [(''code'', JNum 0),
                    (''data'', JObj [(''play'', JStr ''p''), (''wmplay'', JStr ''w'')])])
      else if t = doc_failed then
        Some (JObj [(''code'', JNum (- 1)), (''msg'', JStr ''Url parsing is failed!'')])
      else if t = doc_success then Some (JObj [(''status'', JStr ''success'')])
      else if t = doc_no_data then Some (JObj [(''code'', JNum 0)])
      else if t = doc_odd_status then
        Some (JObj [(''status'', JObj [(''toString'', JNum 1)])])
      else if t = ''null'' then Some JNull
      else if t = ''{}'' then Some (JObj [])
      else None)"

text \<open>Lines 79 to 83 of \<^verbatim>\<open>formatBytes\<close> on the one size used below.\<close>

definition table_format :: "jsval \<Rightarrow> string" where
  "table_format v = (if v = JStr ''500000'' then ''488.28 KB'' else [])"

definition probe_url :: string where
  "probe_url = ''https://v.example/a''"

definition ascii_trim :: "string \<Rightarrow> string" where
  "ascii_trim s =
     (let ws = (\<lambda>c. c \<in> set [CHR 0x09, CHR 0x0A, CHR 0x0B, CHR 0x0C, CHR 0x0D, CHR 0x20])
      in rev (dropWhile ws (rev (dropWhile ws s))))"

definition script_env :: "fetch_outcome list \<Rightarrow> env" where
  "script_env script =
     \<lparr>net = net_script script,
      json_parse = table_parse,
      num_str = (\<lambda>n. if n = 0 then ''0'' else ''1''),
      str_trim = ascii_trim,
      now_iso = ''2024-01-01T00:00:00.000Z'',
      development = False,
      stack_of = (\<lambda>e. []),
      float_format = table_format,
      big_double = (\<lambda>n. None)\<rparr>"

definition tiktok_url :: string where
  "tiktok_url = ''https://vt.tiktok.com/x''"

text \<open>A TikTok URL that ends in the unpaired surrogate U+D800.\<close>

definition surrogate_url :: string where
  "surrogate_url = ''https://vt.tiktok.com/'' @ [CHR 0xED, CHR 0xA0, CHR 0x80]"

definition post_req :: "string \<Rightarrow> http_req" where
  "post_req u =
     \<lparr>rq_method = ''POST'', rq_body = JObj [(''url'', JStr u)], rq_debug = False,
      rq_url = None\<rparr>"

definition demo_tunnel :: jsval where
  "demo_tunnel =
     JObj [(''status'', JStr ''tunnel''), (''url'', JStr ''p''),
           (''filename'', JStr ''tiktok_video.mp4''), (''thumb'', JNull),
           (''title'', JStr ''TikTok Video''), (''author'', JStr ''TikTok User''),
           (''variants'', JArr
              [variant ''video-hd'' ''HD NO WATERMARK (MP4)'' (JStr ''p'') JNull,
               variant ''video-sd'' ''NO WATERMARK (MP4)'' (JStr ''p'') JNull,
               variant ''audio'' ''MP3 AUDIO'' (JStr ''p'') JNull,
               variant ''video-watermark'' ''WITH WATERMARK (MP4)'' (JStr ''w'') JNull])]"

definition plain_req :: "string \<Rightarrow> jsval \<Rightarrow> http_req" where
  "plain_req m b = \<lparr>rq_method = m, rq_body = b, rq_debug = False, rq_url = None\<rparr>"

definition probe_req :: "string \<Rightarrow> http_req" where
  "probe_req u = \<lparr>rq_method = ''GET'', rq_body = JUndefined, rq_debug = False, rq_url = Some u\<rparr>"

lemma contains_iff: "contains pat s \<longleftrightarrow> (\<exists>a b. s = a @ pat @ b)"
proof (induction s)
  case Nil
  then show ?case by auto
next
  case (Cons c cs)
  show ?case
  proof
    assume "contains pat (c # cs)"
    then consider "prefix pat (c # cs)" | "contains pat cs" by auto
    then show "\<exists>a b. c # cs = a @ pat @ b"
    proof cases
      case 1
      then obtain b where "c # cs = pat @ b" by (auto simp: prefix_def)
      then have "c # cs = [] @ pat @ b" by simp
      then show ?thesis by blast
    next
      case 2
      with Cons.IH obtain a b where "cs = a @ pat @ b" by blast
      then have "c # cs = (c # a) @ pat @ b" by simp
      then show ?thesis by blast
    qed
  next
    assume "\<exists>a b. c # cs = a @ pat @ b"
    then obtain a b where ab: "c # cs = a @ pat @ b" by blast
    show "contains pat (c # cs)"
    proof (cases a)
      case Nil
      with ab have "prefix pat (c # cs)" by (simp add: prefix_def)
      then show ?thesis by simp
    next
      case (Cons x a')
      with ab have "cs = a' @ pat @ b" by simp
      with Cons.IH have "contains pat cs" by blast
      then show ?thesis by simp
    qed
  qed
qed

text \<open>
  C5. For every input string, platform detection returns one of tiktok, youtube,
  instagram, twitter, facebook, unknown: the platform of the first row of the priority
  table (tiktok, youtube, instagram, twitter, facebook) one of whose patterns occurs in
  the input, letter case ignored, and \<^verbatim>\<open>unknown\<close> when no row matches. The function
  is total: there is no input on which it raises.
\<close>

theorem detectPlatform_first_match:
  "detectPlatform url = detect_spec url
   \<and> detectPlatform url \<in>
       {''tiktok'', ''youtube'', ''instagram'', ''twitter'', ''facebook'', ''unknown''}
   \<and> (list_ex (matches_platform url) platform_table \<or> detectPlatform url = ''unknown'')
   \<and> map fst platform_table =
       [''tiktok'', ''youtube'', ''instagram'', ''twitter'', ''facebook'']
   \<and> (detectPlatform url = ''tiktok'' \<longleftrightarrow>
        (\<exists>a b. map lower_char url = a @ ''tiktok.com'' @ b))
   \<and> (detectPlatform url = ''unknown'' \<longleftrightarrow>
        (\<forall>pat \<in> set (concat (map snd platform_table)).
           \<not> (\<exists>a b. map lower_char url = a @ pat @ b)))"
proof -
  have table: "detectPlatform url = detect_spec url
     \<and> detectPlatform url \<in>
       {''tiktok'', ''youtube'', ''instagram'', ''twitter'', ''facebook'', ''unknown''}
     \<and> (list_ex (matches_platform url) platform_table \<or> detectPlatform url = ''unknown'')
     \<and> map fst platform_table =
       [''tiktok'', ''youtube'', ''instagram'', ''twitter'', ''facebook'']"
    by (simp add: detectPlatform_def detect_spec_def platform_table_def matches_platform_def)
  have first: "detectPlatform url = ''tiktok'' \<longleftrightarrow>
        (\<exists>a b. map lower_char url = a @ ''tiktok.com'' @ b)"
    unfolding contains_iff [symmetric] by (simp add: detectPlatform_def test_ci_def)
  have none: "detectPlatform url = ''unknown'' \<longleftrightarrow>
        (\<forall>pat \<in> set (concat (map snd platform_table)).
           \<not> (\<exists>a b. map lower_char url = a @ pat @ b))"
    unfolding contains_iff [symmetric]
    by (simp add: detectPlatform_def test_ci_def platform_table_def)
  from table first none show ?thesis by blast
qed

theorem detectPlatform_first_match_witness:
  "detectPlatform ''www.TikTok.com/v?youtube'' = ''tiktok''
   \<and> detectPlatform ''youtu.be/abc'' = ''youtube''
   \<and> detectPlatform ''example.org/x'' = ''unknown''"
  using detectPlatform_first_match [of "''www.TikTok.com/v?youtube''"]
    detectPlatform_first_match [of "''youtu.be/abc''"]
    detectPlatform_first_match [of "''example.org/x''"]
  by (simp add: detect_spec_def platform_table_def matches_platform_def test_ci_def
      lower_char_def)

section \<open>The timed fetch utility\<close>

lemma fetchUrl_eq:
  "fetchUrl env url opts st =
     (Inr (body_of (net env (requests st @ [finalOptions url opts]))),
      st\<lparr>requests := requests st @ [finalOptions url opts]\<rparr>)"
  by (simp add: fetchUrl_def fetchUrl_try_def fetch_def Let_def body_of_def
      split: fetch_outcome.splits sum.splits)

text \<open>
  C9. \<^verbatim>\<open>fetchUrl\<close> never raises: for every address and options it sends one request
  and returns \<^verbatim>\<open>null\<close> when the promise is rejected (network error, timeout abort) or the
  body cannot be read, and the body text otherwise. No exception of \<^verbatim>\<open>fetchUrl\<close> reaches
  an adapter: the only exception that can leave the TikWM adapter's two attempts is the
  URIError of \<^verbatim>\<open>encodeURIComponent\<close>, raised outside \<^verbatim>\<open>fetchUrl\<close> for a URL with an
  unpaired surrogate.
\<close>

theorem fetchUrl_never_raises:
  "(\<exists>r. fetchUrl env url opts st =
          (Inr r, st\<lparr>requests := requests st @ [finalOptions url opts]\<rparr>)
        \<and> r = body_of (net env (requests st @ [finalOptions url opts])))
   \<and> (\<forall>e st'. fetchUrl env url opts st \<noteq> (Inl e, st'))
   \<and> (\<forall>e st'. tikwm_load env url st = (Inl e, st') \<longrightarrow>
          has_lone_surrogate url \<and> e = JsError ''URI malformed'')"
  by (auto simp: fetchUrl_eq tikwm_load_def Let_def encodeURIComponent_def
      split: if_splits)

theorem fetchUrl_never_raises_witness:
  "fst (fetchUrl (script_env []) tikwm_api no_options fresh) = Inr None
   \<and> fst (fetchUrl (script_env [ok_text ''null'']) tikwm_api no_options fresh)
       = Inr (Some ''null'')
   \<and> fst (tikwm_load (script_env []) surrogate_url fresh) = Inl (JsError ''URI malformed'')
   \<and> has_lone_surrogate surrogate_url"
proof -
  have raised: "fst (tikwm_load (script_env []) surrogate_url fresh)
      = Inl (JsError ''URI malformed'')"
    by (simp add: tikwm_load_def fetchUrl_eq Let_def encodeURIComponent_def surrogate_url_def
        script_env_def net_script_def body_of_def try_parse_def tikwm_retry_def)
  then obtain st' where "tikwm_load (script_env []) surrogate_url fresh
      = (Inl (JsError ''URI malformed''), st')"
    by (cases "tikwm_load (script_env []) surrogate_url fresh") simp
  with fetchUrl_never_raises [of "script_env []" surrogate_url no_options fresh]
  have "has_lone_surrogate surrogate_url" by blast
  with raised fetchUrl_never_raises [of "script_env []" tikwm_api no_options fresh]
    fetchUrl_never_raises [of "script_env [ok_text ''null'']" tikwm_api no_options fresh]
  show ?thesis
    by (auto simp: script_env_def net_script_def ok_text_def fresh_def body_of_def)
qed

section \<open>Results of the adapters\<close>

lemma getp_error_result [simp]:
  "getp (error_result t) ''status'' = JStr ''error''"
  "getp (error_result t) ''text'' = JStr t"
  "truthy (error_result t)"
  by (simp_all add: error_result_def)

lemma not_accepted_error [simp]: "\<not> accepted (error_result t)"
  by (simp add: accepted_def)

lemma not_accepted_null [simp]: "\<not> accepted JNull"
  by (simp add: accepted_def)

lemma try_parse_eq:
  "try_parse env b d = (case parse_text env b of Some v \<Rightarrow> v | None \<Rightarrow> d)"
  by (simp add: try_parse_def parse_text_def split: option.splits)

lemma truthy_iff: "truthy v \<longleftrightarrow> v \<notin> set falsy_values"
  by (cases v) (auto simp: falsy_values_def)

lemma falsy_stringifiable: "v \<in> set falsy_values \<Longrightarrow> stringifiable v"
  by (auto simp: falsy_values_def)

lemma tikwm_load_eq:
  "tikwm_load env url st =
     (let p = post_json env url st; d = (case p of Some v \<Rightarrow> v | None \<Rightarrow> JNull) in
      if tikwm_retry d
      then (if has_lone_surrogate url
            then (Inl (JsError ''URI malformed''),
                  \<lparr>requests = requests st @ [tikwm_post_request url],
                   debugLog = debugLog st
                     @ [''TikWM trying POST'', ''TikWM POST failed/empty, trying GET'']\<rparr>)
            else (Inr (case get_json env url st of Some v \<Rightarrow> v | None \<Rightarrow> d),
                  \<lparr>requests = requests st @ [tikwm_post_request url, tikwm_get_request url],
                   debugLog = debugLog st
                     @ [''TikWM trying POST'', ''TikWM POST failed/empty, trying GET'']\<rparr>))
      else (Inr d,
            \<lparr>requests = requests st @ [tikwm_post_request url],
             debugLog = debugLog st @ [''TikWM trying POST'']\<rparr>))"
  by (simp add: tikwm_load_def fetchUrl_eq try_parse_eq post_json_def get_json_def Let_def
      push_log_def tikwm_post_request_def tikwm_get_request_def encodeURIComponent_def)

lemma tikwm_retry_iff:
  "tikwm_retry (case p of Some v \<Rightarrow> v | None \<Rightarrow> JNull) \<longleftrightarrow>
     p = None \<or> (\<exists>d. p = Some d \<and> (d \<in> set falsy_values \<or> claimed_retry (Some d)))"
  by (cases p) (auto simp: tikwm_retry_def claimed_retry_def truthy_iff falsy_values_def)

text \<open>
  C3 (amended). For a TikTok URL the TikWM adapter sends the POST and then at most one
  GET. It goes on to the retry exactly when the POST attempt yields no parseable JSON,
  or yields a JSON value that is falsy (\<^verbatim>\<open>null\<close>, \<^verbatim>\<open>false\<close>, \<^verbatim>\<open>0\<close>, the empty string), or a
  payload whose \<^verbatim>\<open>code\<close> field is defined and is not the number 0. On the retry a URL
  with an unpaired surrogate makes the adapter raise a URIError before any GET is sent;
  every other URL is sent by GET, and the final data is what the GET parses to, or
  else what the POST parsed to, or else \<^verbatim>\<open>null\<close>. Without a retry the final data is what
  the POST parsed to. If neither attempt yields parseable JSON the final data is
  \<^verbatim>\<open>null\<close>; whenever the final data is falsy the result is the generic error
  \<^verbatim>\<open>TikWM no response\<close>. Otherwise, if the \<^verbatim>\<open>code\<close> field of the final data is missing or
  not 0, the result is an error whose text is \<^verbatim>\<open>TikWM: \<close> followed by the upstream \<^verbatim>\<open>msg\<close>,
  or by \<^verbatim>\<open>Unknown error\<close> when \<^verbatim>\<open>msg\<close> is falsy; a \<^verbatim>\<open>msg\<close> that cannot be converted to a
  string makes the adapter raise a TypeError instead.
\<close>

theorem tikwm_retry_and_errors:
  fixes env :: env and url :: string and st :: state
    and d :: jsval and retry :: bool and final :: jsval
  defines "d \<equiv> (case post_json env url st of Some v \<Rightarrow> v | None \<Rightarrow> JNull)"
    and "retry \<equiv>
          (post_json env url st = None
           \<or> (\<exists>v. post_json env url st = Some v
                   \<and> (v \<in> set falsy_values \<or> claimed_retry (Some v))))"
    and "final \<equiv> (case get_json env url st of Some g \<Rightarrow> g | None \<Rightarrow> d)"
  shows
    "(\<not> retry \<longrightarrow>
        providerTikwm env url format quality ''tiktok'' st
          = (tikwm_build env d,
             \<lparr>requests = requests st @ [tikwm_post_request url],
              debugLog = debugLog st @ [''TikWM trying POST'']\<rparr>))
     \<and> (retry \<and> \<not> has_lone_surrogate url \<longrightarrow>
        providerTikwm env url format quality ''tiktok'' st
          = (tikwm_build env final,
             \<lparr>requests = requests st @ [tikwm_post_request url, tikwm_get_request url],
              debugLog = debugLog st
                @ [''TikWM trying POST'', ''TikWM POST failed/empty, trying GET'']\<rparr>))
     \<and> (retry \<and> has_lone_surrogate url \<longrightarrow>
        providerTikwm env url format quality ''tiktok'' st
          = (Inl (JsError ''URI malformed''),
             \<lparr>requests = requests st @ [tikwm_post_request url],
              debugLog = debugLog st
                @ [''TikWM trying POST'', ''TikWM POST failed/empty, trying GET'']\<rparr>))
     \<and> (post_json env url st = None \<and> get_json env url st = None \<longrightarrow> final = JNull)
     \<and> (\<forall>v. v \<in> set falsy_values \<longrightarrow>
            tikwm_build env v = Inr (error_result ''TikWM no response''))
     \<and> (\<forall>v. v \<notin> set falsy_values \<and> getp v ''code'' \<noteq> JNum 0 \<longrightarrow>
            tikwm_build env v =
              (if stringifiable (getp v ''msg'')
               then Inr (error_result (''TikWM: '' @
                      (if truthy (getp v ''msg'') then to_str (num_str env) (getp v ''msg'')
                       else ''Unknown error'')))
               else Inl (JsError ''Cannot convert object to primitive value'')))"
proof -
  have r: "tikwm_retry d \<longleftrightarrow> retry"
    unfolding d_def retry_def by (rule tikwm_retry_iff)
  have no: "\<not> retry \<longrightarrow>
        providerTikwm env url format quality ''tiktok'' st
          = (tikwm_build env d,
             \<lparr>requests = requests st @ [tikwm_post_request url],
              debugLog = debugLog st @ [''TikWM trying POST'']\<rparr>)"
    using r unfolding d_def
    by (simp add: providerTikwm_def tikwm_load_eq Let_def)
  have yes: "retry \<and> \<not> has_lone_surrogate url \<longrightarrow>
        providerTikwm env url format quality ''tiktok'' st
          = (tikwm_build env final,
             \<lparr>requests = requests st @ [tikwm_post_request url, tikwm_get_request url],
              debugLog = debugLog st
                @ [''TikWM trying POST'', ''TikWM POST failed/empty, trying GET'']\<rparr>)"
    using r unfolding d_def final_def
    by (simp add: providerTikwm_def tikwm_load_eq Let_def)
  have uri: "retry \<and> has_lone_surrogate url \<longrightarrow>
        providerTikwm env url format quality ''tiktok'' st
          = (Inl (JsError ''URI malformed''),
             \<lparr>requests = requests st @ [tikwm_post_request url],
              debugLog = debugLog st
                @ [''TikWM trying POST'', ''TikWM POST failed/empty, trying GET'']\<rparr>)"
    using r unfolding d_def
    by (simp add: providerTikwm_def tikwm_load_eq Let_def)
  have none: "post_json env url st = None \<and> get_json env url st = None \<longrightarrow> final = JNull"
    unfolding final_def d_def by simp
  have falsy: "\<forall>v. v \<in> set falsy_values \<longrightarrow>
      tikwm_build env v = Inr (error_result ''TikWM no response'')"
    by (simp add: tikwm_build_def truthy_iff)
  have err: "\<forall>v. v \<notin> set falsy_values \<and> getp v ''code'' \<noteq> JNum 0 \<longrightarrow>
            tikwm_build env v =
              (if stringifiable (getp v ''msg'')
               then Inr (error_result (''TikWM: '' @
                      (if truthy (getp v ''msg'') then to_str (num_str env) (getp v ''msg'')
                       else ''Unknown error'')))
               else Inl (JsError ''Cannot convert object to primitive value''))"
    by (auto simp: tikwm_build_def truthy_iff js_string_def js_or_def
        dest: falsy_stringifiable)
  from no yes uri none falsy err show ?thesis by blast
qed

lemma demo_wellformed: "\<not> has_lone_surrogate tiktok_url"
  by (simp add: tiktok_url_def)

lemma demo_malformed: "has_lone_surrogate surrogate_url"
  by (simp add: surrogate_url_def)

theorem tikwm_retry_and_errors_witness:
  "providerTikwm (script_env [ok_text doc_failed, ok_text doc_failed]) tiktok_url
      (JStr ''auto'') (JStr ''720'') ''tiktok'' fresh
   = (Inr (error_result ''TikWM: Url parsing is failed!''),
      \<lparr>requests = [tikwm_post_request tiktok_url, tikwm_get_request tiktok_url],
       debugLog = [''TikWM trying POST'', ''TikWM POST failed/empty, trying GET'']\<rparr>)
   \<and> providerTikwm (script_env []) surrogate_url (JStr ''auto'') (JStr ''720'') ''tiktok'' fresh
   = (Inl (JsError ''URI malformed''),
      \<lparr>requests = [tikwm_post_request surrogate_url],
       debugLog = [''TikWM trying POST'', ''TikWM POST failed/empty, trying GET'']\<rparr>)"
proof -
  let ?env = "script_env [ok_text doc_failed, ok_text doc_failed]"
  let ?failed = "JObj [(''code'', JNum (- 1)), (''msg'', JStr ''Url parsing is failed!'')]"
  have p: "post_json ?env tiktok_url fresh = Some ?failed"
    by (simp add: post_json_def script_env_def net_script_def ok_text_def body_of_def
        parse_text_def table_parse_def doc_failed_def doc_play_def fresh_def)
  have g: "get_json ?env tiktok_url fresh = Some ?failed"
    by (simp add: get_json_def script_env_def net_script_def ok_text_def body_of_def
        parse_text_def table_parse_def doc_failed_def doc_play_def fresh_def)
  have c: "claimed_retry (Some ?failed)" by (simp add: claimed_retry_def)
  have nf: "?failed \<notin> set falsy_values" by (simp add: falsy_values_def)
  have code: "getp ?failed ''code'' \<noteq> JNum 0" by simp
  have one: "providerTikwm ?env tiktok_url (JStr ''auto'') (JStr ''720'') ''tiktok'' fresh
     = (Inr (error_result ''TikWM: Url parsing is failed!''),
        \<lparr>requests = [tikwm_post_request tiktok_url, tikwm_get_request tiktok_url],
         debugLog = [''TikWM trying POST'', ''TikWM POST failed/empty, trying GET'']\<rparr>)"
    using tikwm_retry_and_errors [of ?env tiktok_url fresh "JStr ''auto''" "JStr ''720''"]
      p g c nf code demo_wellformed
    by (simp add: fresh_def)
  have p2: "post_json (script_env []) surrogate_url fresh = None"
    by (simp add: post_json_def script_env_def net_script_def body_of_def parse_text_def)
  have two: "providerTikwm (script_env []) surrogate_url (JStr ''auto'') (JStr ''720'')
       ''tiktok'' fresh
     = (Inl (JsError ''URI malformed''),
        \<lparr>requests = [tikwm_post_request surrogate_url],
         debugLog = [''TikWM trying POST'', ''TikWM POST failed/empty, trying GET'']\<rparr>)"
    using tikwm_retry_and_errors [of "script_env []" surrogate_url fresh "JStr ''auto''"
        "JStr ''720''"] p2 demo_malformed
    by (simp add: fresh_def)
  from one two show ?thesis by simp
qed

text \<open>
  The claim as first stated fails: a POST body \<^verbatim>\<open>null\<close> is parseable JSON without a
  \<^verbatim>\<open>code\<close> field, and the adapter still retries via GET.
\<close>

theorem tikwm_retry_counterexample:
  "post_json (script_env [ok_text ''null'']) tiktok_url fresh = Some JNull
   \<and> \<not> claimed_retry (post_json (script_env [ok_text ''null'']) tiktok_url fresh)
   \<and> requests (snd (providerTikwm (script_env [ok_text ''null'']) tiktok_url
                     (JStr ''auto'') (JStr ''720'') ''tiktok'' fresh))
       = [tikwm_post_request tiktok_url, tikwm_get_request tiktok_url]"
  by (simp add: providerTikwm_def tikwm_load_eq Let_def post_json_def get_json_def
      script_env_def net_script_def ok_text_def body_of_def parse_text_def table_parse_def
      doc_failed_def doc_play_def doc_success_def doc_no_data_def doc_odd_status_def fresh_def
      tikwm_retry_def claimed_retry_def demo_wellformed)

lemma variants_types:
  "map (\<lambda>v. getp v ''type'') (tikwm_variants video)
     = map JStr (filter (\<lambda>ty. truthy (variant_url video ty)) variant_order)"
  by (simp add: tikwm_variants_def variant_def variant_order_def variant_url_def)

lemma variants_urls:
  "v \<in> set (tikwm_variants video) \<Longrightarrow>
     truthy (getp v ''url'')
     \<and> (\<exists>ty \<in> set variant_order. getp v ''type'' = JStr ty \<and> getp v ''url'' = variant_url video ty)"
  by (auto simp: tikwm_variants_def variant_def variant_order_def variant_url_def
      split: if_splits)

lemma subseq_types:
  "subseq (map JStr (filter P variant_order)) (map JStr variant_order)"
  by (rule subseq_map) (rule subseq_filter_left)

lemma tikwm_build_accepted:
  assumes "tikwm_build env data = Inr r" and "accepted r"
  shows "getp r ''variants'' = JArr (tikwm_variants (getp data ''data''))
         \<and> getp r ''status'' = JStr ''tunnel''"
  using assms
  by (auto simp: tikwm_build_def Let_def split: if_splits sum.splits)

text \<open>
  C6. In every result of the TikWM adapter that the handler accepts, the \<^verbatim>\<open>variants\<close>
  list holds, in the order video-hd, video-sd, audio, video-watermark, exactly the
  entries whose URL resolved to a truthy value: the types form a subsequence of that
  order, and every entry carries the URL resolved for its type.
\<close>

theorem tikwm_variants_ordered:
  assumes "providerTikwm env url format quality platform st = (Inr r, st')"
    and "accepted r"
  shows "\<exists>data video vs.
           tikwm_load env url st = (Inr data, st') \<and> video = getp data ''data''
         \<and> getp r ''variants'' = JArr vs
         \<and> map (\<lambda>v. getp v ''type'') vs
             = map JStr (filter (\<lambda>ty. truthy (variant_url video ty)) variant_order)
         \<and> subseq (map (\<lambda>v. getp v ''type'') vs) (map JStr variant_order)
         \<and> (\<forall>v \<in> set vs. truthy (getp v ''url'')
               \<and> (\<exists>ty \<in> set variant_order.
                     getp v ''type'' = JStr ty \<and> getp v ''url'' = variant_url video ty))"
proof -
  from assms have tk: "platform = ''tiktok''"
    by (auto simp: providerTikwm_def split: if_splits)
  with assms(1) obtain data where load: "tikwm_load env url st = (Inr data, st')"
    and build: "tikwm_build env data = Inr r"
    by (auto simp: providerTikwm_def split: sum.splits prod.splits)
  from tikwm_build_accepted [OF build assms(2)]
  have vs: "getp r ''variants'' = JArr (tikwm_variants (getp data ''data''))" by simp
  show ?thesis
    using load vs variants_types [of "getp data ''data''"] variants_urls [of _ "getp data ''data''"]
      subseq_types [of "\<lambda>ty. truthy (variant_url (getp data ''data'') ty)"]
    by (intro exI [of _ data] exI [of _ "getp data ''data''"]
        exI [of _ "tikwm_variants (getp data ''data'')"]) simp
qed

theorem tikwm_variants_ordered_witness:
  "providerTikwm (script_env [ok_text doc_play]) tiktok_url (JStr ''auto'') (JStr ''720'')
       ''tiktok'' fresh
     = (Inr (JObj
         [(''status'', JStr ''tunnel''), (''url'', JStr ''p''),
          (''filename'', JStr ''tiktok_video.mp4''), (''thumb'', JNull),
          (''title'', JStr ''TikTok Video''), (''author'', JStr ''TikTok User''),
          (''variants'', JArr
             [variant ''video-hd'' ''HD NO WATERMARK (MP4)'' (JStr ''p'') JNull,
              variant ''video-sd'' ''NO WATERMARK (MP4)'' (JStr ''p'') JNull,
              variant ''audio'' ''MP3 AUDIO'' (JStr ''p'') JNull,
              variant ''video-watermark'' ''WITH WATERMARK (MP4)'' (JStr ''w'') JNull])]),
        \<lparr>requests = [tikwm_post_request tiktok_url], debugLog = [''TikWM trying POST'']\<rparr>)
   \<and> subseq [JStr ''video-hd'', JStr ''video-sd'', JStr ''audio'', JStr ''video-watermark'']
        (map JStr variant_order)"
proof -
  let ?env = "script_env [ok_text doc_play]"
  have run: "providerTikwm ?env tiktok_url (JStr ''auto'') (JStr ''720'') ''tiktok'' fresh
     = (Inr (JObj
         [(''status'', JStr ''tunnel''), (''url'', JStr ''p''),
          (''filename'', JStr ''tiktok_video.mp4''), (''thumb'', JNull),
          (''title'', JStr ''TikTok Video''), (''author'', JStr ''TikTok User''),
          (''variants'', JArr
             [variant ''video-hd'' ''HD NO WATERMARK (MP4)'' (JStr ''p'') JNull,
              variant ''video-sd'' ''NO WATERMARK (MP4)'' (JStr ''p'') JNull,
              variant ''audio'' ''MP3 AUDIO'' (JStr ''p'') JNull,
              variant ''video-watermark'' ''WITH WATERMARK (MP4)'' (JStr ''w'') JNull])]),
        \<lparr>requests = [tikwm_post_request tiktok_url], debugLog = [''TikWM trying POST'']\<rparr>)"
    by (simp add: providerTikwm_def tikwm_load_eq Let_def post_json_def script_env_def
        net_script_def ok_text_def body_of_def parse_text_def table_parse_def doc_play_def
        fresh_def tikwm_retry_def tikwm_build_def mainUrl_def hdUrl_def sdUrl_def wmUrl_def
        musicUrl_def audioUrl_def js_or_def js_and_def js_string_def tikwm_variants_def
        opt_chain_def)
  have acc: "accepted (JObj
         [(''status'', JStr ''tunnel''), (''url'', JStr ''p''),
          (''filename'', JStr ''tiktok_video.mp4''), (''thumb'', JNull),
          (''title'', JStr ''TikTok Video''), (''author'', JStr ''TikTok User''),
          (''variants'', JArr
             [variant ''video-hd'' ''HD NO WATERMARK (MP4)'' (JStr ''p'') JNull,
              variant ''video-sd'' ''NO WATERMARK (MP4)'' (JStr ''p'') JNull,
              variant ''audio'' ''MP3 AUDIO'' (JStr ''p'') JNull,
              variant ''video-watermark'' ''WITH WATERMARK (MP4)'' (JStr ''w'') JNull])])"
    by (simp add: accepted_def)
  from tikwm_variants_ordered [OF run acc] run show ?thesis
    by (auto simp: variant_def)
qed

section \<open>The Snaptik adapter\<close>


lemma snaptik_cases:
  assumes "providerSnaptik env url format quality platform st = (Inr r, st')"
  shows "r = JNull \<or>
     (\<exists>t data. body_of (net env (requests st @ [finalOptions snaptik_api (snaptik_post url)])) = Some t
        \<and> parse_text env (Some t) = Some data
        \<and> getp data ''status'' = JStr ''success'' \<and> r = snaptik_result data)"
  using assms
  by (auto simp: providerSnaptik_def fetchUrl_eq parse_text_def push_log_def
      split: if_splits sum.splits option.splits)

lemma snaptik_on_success:
  assumes "parse_text env (body_of (net env (requests st @ [finalOptions snaptik_api (snaptik_post url)])))
             = Some data"
    and "getp data ''status'' = JStr ''success''"
  shows "\<exists>st'. providerSnaptik env url format quality ''tiktok'' st = (Inr (snaptik_result data), st')"
proof -
  from assms(2) have "truthy data" by (cases data) auto
  with assms show ?thesis
    by (auto simp: providerSnaptik_def fetchUrl_eq parse_text_def push_log_def
        split: if_splits sum.splits option.splits)
qed

text \<open>
  C10. Every non-null result of the Snaptik adapter comes from an upstream payload whose
  \<^verbatim>\<open>status\<close> is \<^verbatim>\<open>success\<close>, has status \<^verbatim>\<open>tunnel\<close> and exactly the properties
  \<^verbatim>\<open>status\<close>, \<^verbatim>\<open>url\<close>, \<^verbatim>\<open>filename\<close> and \<^verbatim>\<open>title\<close>: no \<^verbatim>\<open>variants\<close>, \<^verbatim>\<open>author\<close> or
  \<^verbatim>\<open>thumb\<close>. And there is a payload, with status \<^verbatim>\<open>success\<close> and neither \<^verbatim>\<open>video\<close> nor
  \<^verbatim>\<open>nwm_video_url\<close>, for which the adapter returns a \<^verbatim>\<open>tunnel\<close> result whose \<^verbatim>\<open>url\<close> is
  the empty string.
\<close>

theorem snaptik_success_shape:
  "(providerSnaptik env url format quality platform st = (Inr r, st') \<and> truthy r \<longrightarrow>
       getp r ''status'' = JStr ''tunnel''
     \<and> keys_of r = [''status'', ''url'', ''filename'', ''title'']
     \<and> ''variants'' \<notin> set (keys_of r) \<and> ''author'' \<notin> set (keys_of r)
     \<and> ''thumb'' \<notin> set (keys_of r)
     \<and> (\<exists>data. parse_text env
            (body_of (net env (requests st @ [finalOptions snaptik_api (snaptik_post url)])))
            = Some data
          \<and> getp data ''status'' = JStr ''success'' \<and> r = snaptik_result data))
   \<and> (\<exists>data. getp data ''status'' = JStr ''success''
          \<and> getp data ''video'' = JUndefined \<and> getp data ''nwm_video_url'' = JUndefined
          \<and> (\<forall>env url format quality st.
                parse_text env
                  (body_of (net env (requests st @ [finalOptions snaptik_api (snaptik_post url)])))
                  = Some data \<longrightarrow>
                (\<exists>r st'. providerSnaptik env url format quality ''tiktok'' st = (Inr r, st')
                   \<and> getp r ''status'' = JStr ''tunnel'' \<and> getp r ''url'' = JStr [])))"
proof (intro conjI impI)
  assume a: "providerSnaptik env url format quality platform st = (Inr r, st') \<and> truthy r"
  with snaptik_cases [of env url format quality platform st r st']
  obtain t data where
    t: "body_of (net env (requests st @ [finalOptions snaptik_api (snaptik_post url)])) = Some t"
    and d: "parse_text env (Some t) = Some data" "getp data ''status'' = JStr ''success''"
    and r: "r = snaptik_result data"
    by auto
  show "getp r ''status'' = JStr ''tunnel''" by (simp add: r snaptik_result_def)
  show "keys_of r = [''status'', ''url'', ''filename'', ''title'']"
    by (simp add: r snaptik_result_def)
  show "''variants'' \<notin> set (keys_of r)" by (simp add: r snaptik_result_def)
  show "''author'' \<notin> set (keys_of r)" by (simp add: r snaptik_result_def)
  show "''thumb'' \<notin> set (keys_of r)" by (simp add: r snaptik_result_def)
  show "\<exists>data. parse_text env
            (body_of (net env (requests st @ [finalOptions snaptik_api (snaptik_post url)])))
            = Some data
          \<and> getp data ''status'' = JStr ''success'' \<and> r = snaptik_result data"
    using t d r by auto
next
  let ?data = "JObj [(''status'', JStr ''success'')]"
  have "\<exists>r st'. providerSnaptik env url format quality ''tiktok'' st = (Inr r, st')
                   \<and> getp r ''status'' = JStr ''tunnel'' \<and> getp r ''url'' = JStr []"
    if "parse_text env
          (body_of (net env (requests st @ [finalOptions snaptik_api (snaptik_post url)])))
          = Some ?data"
    for env url format quality st
    using snaptik_on_success [OF that, of format quality]
    by (auto simp: snaptik_result_def js_or_def)
  then show "\<exists>data. getp data ''status'' = JStr ''success''
          \<and> getp data ''video'' = JUndefined \<and> getp data ''nwm_video_url'' = JUndefined
          \<and> (\<forall>env url format quality st.
                parse_text env
                  (body_of (net env (requests st @ [finalOptions snaptik_api (snaptik_post url)])))
                  = Some data \<longrightarrow>
                (\<exists>r st'. providerSnaptik env url format quality ''tiktok'' st = (Inr r, st')
                   \<and> getp r ''status'' = JStr ''tunnel'' \<and> getp r ''url'' = JStr []))"
    by (intro exI [of _ ?data]) simp
qed

theorem snaptik_success_shape_witness:
  "providerSnaptik (script_env [ok_text doc_success]) tiktok_url (JStr ''auto'') (JStr ''720'')
       ''tiktok'' fresh
     = (Inr (JObj [(''status'', JStr ''tunnel''), (''url'', JStr []),
                   (''filename'', JStr ''tiktok_snaptik.mp4''),
                   (''title'', JStr ''TikTok Video'')]),
        \<lparr>requests = [finalOptions snaptik_api (snaptik_post tiktok_url)],
         debugLog = [''Snaptik(tik.fail) trying'']\<rparr>)
   \<and> ''variants'' \<notin> set (keys_of (JObj [(''status'', JStr ''tunnel''), (''url'', JStr []),
                   (''filename'', JStr ''tiktok_snaptik.mp4''),
                   (''title'', JStr ''TikTok Video'')]))"
proof -
  have run: "providerSnaptik (script_env [ok_text doc_success]) tiktok_url (JStr ''auto'')
       (JStr ''720'') ''tiktok'' fresh
     = (Inr (JObj [(''status'', JStr ''tunnel''), (''url'', JStr []),
                   (''filename'', JStr ''tiktok_snaptik.mp4''),
                   (''title'', JStr ''TikTok Video'')]),
        \<lparr>requests = [finalOptions snaptik_api (snaptik_post tiktok_url)],
         debugLog = [''Snaptik(tik.fail) trying'']\<rparr>)"
    by (simp add: providerSnaptik_def fetchUrl_eq push_log_def script_env_def net_script_def
        ok_text_def body_of_def table_parse_def doc_success_def doc_play_def doc_failed_def
        fresh_def snaptik_result_def js_or_def)
  from snaptik_success_shape [of "script_env [ok_text doc_success]" tiktok_url "JStr ''auto''"
      "JStr ''720''" "''tiktok''" fresh _ _] run
  show ?thesis by simp
qed



section \<open>The provider chain\<close>

lemma tikwm_build_results:
  assumes "tikwm_build env data = Inr r"
  shows "(\<exists>t. t \<noteq> [] \<and> r = error_result t) \<or> accepted r"
  using assms
  by (auto simp: tikwm_build_def Let_def accepted_def split: if_splits sum.splits)

lemma tikwm_results:
  assumes "providerTikwm env url format quality platform st = (Inr r, st')"
  shows "r = JNull \<or> (\<exists>t. t \<noteq> [] \<and> r = error_result t) \<or> accepted r"
  using assms tikwm_build_results [of env _ r]
  by (auto simp: providerTikwm_def tikwm_load_eq Let_def split: if_splits)

lemma tikwm_effects:
  assumes "providerTikwm env url format quality platform st = (res, st')"
  shows "set (requests st') \<subseteq> set (requests st) \<union> {tikwm_post_request url, tikwm_get_request url}
       \<and> set (debugLog st') \<subseteq> set (debugLog st)
            \<union> {''TikWM trying POST'', ''TikWM POST failed/empty, trying GET''}"
  using assms
  by (auto simp: providerTikwm_def tikwm_load_eq Let_def split: if_splits)

lemma tikwm_urls:
  "req_url (tikwm_post_request url) \<noteq> snaptik_api"
  "req_url (tikwm_get_request url) \<noteq> snaptik_api"
  by (simp_all add: tikwm_post_request_def tikwm_get_request_def finalOptions_def
      tikwm_api_def tikwm_get_url_def snaptik_api_def)

lemma snaptik_results:
  assumes "providerSnaptik env url format quality platform st = (Inr r, st')"
  shows "r = JNull \<or> accepted r"
  using snaptik_cases [OF assms]
  by (auto simp: snaptik_result_def accepted_def)

text \<open>Once a provider's result is accepted, the rest of the list plays no part.\<close>

lemma run_providers_accept:
  assumes "\<not> truthy (finalResult c)"
    and "provider url format quality platform (push_log (''Trying provider: '' @ name) (world c))
           = (Inr r, st)"
    and "accepted r"
  shows "run_providers env ((name, provider) # rest) url format quality platform c
           = c\<lparr>finalResult := r, world := push_log (''Success with '' @ name) st\<rparr>"
  using assms by simp

lemma accepted_with_debug: "accepted r \<Longrightarrow> accepted (with_debug dbg st r)"
  by (cases r) (auto simp: accepted_def with_debug_def update_conv')

lemma error_with_debug:
  "getp (with_debug dbg st (error_result t)) ''status'' = JStr ''error''
   \<and> getp (with_debug dbg st (error_result t)) ''text'' = JStr t"
  by (simp add: with_debug_def error_result_def)

lemma run_providers_final:
  "\<not> truthy (finalResult c) \<Longrightarrow>
     \<not> truthy (finalResult (run_providers env ps url format quality platform c))
     \<or> accepted (finalResult (run_providers env ps url format quality platform c))"
proof (induction ps arbitrary: c)
  case Nil
  then show ?case by simp
next
  case (Cons p ps)
  obtain name provider where p: "p = (name, provider)" by (cases p)
  obtain res st where run:
    "provider url format quality platform (push_log (''Trying provider: '' @ name) (world c))
       = (res, st)"
    by (cases "provider url format quality platform
                 (push_log (''Trying provider: '' @ name) (world c))")
  show ?case
  proof (cases res)
    case (Inl e)
    with Cons.prems p run Cons.IH [of "on_exception name e (c\<lparr>world := st\<rparr>)"]
    show ?thesis by (simp add: on_exception_def)
  next
    case (Inr r)
    show ?thesis
    proof (cases "accepted r")
      case True
      with Cons.prems p run Inr show ?thesis by simp
    next
      case False
      note nacc = this
      show ?thesis
      proof (cases "truthy r \<and> truthy (getp r ''text'')")
        case True
        show ?thesis
        proof (cases "js_string (num_str env) (getp r ''text'')")
          case (Inl e)
          with Cons.prems p run Inr nacc True
            Cons.IH [of "on_exception name e (c\<lparr>lastError := getp r ''text'', world := st\<rparr>)"]
          show ?thesis by (simp add: on_exception_def)
        next
          case (Inr t)
          with Cons.prems p run \<open>res = Inr r\<close> nacc True
            Cons.IH [of "c\<lparr>lastError := getp r ''text'',
                           world := push_log (''Failed '' @ name @ '': '' @ t) st\<rparr>"]
          show ?thesis by simp
        qed
      next
        case False
        with Cons.prems p run Inr nacc Cons.IH [of "c\<lparr>world := st\<rparr>"]
        show ?thesis by auto
      qed
    qed
  qed
qed

text \<open>
  C1. For a POST request whose URL is a TikTok URL: if the first provider (TikWM)
  returns a result whose \<^verbatim>\<open>status\<close> is present and is not \<^verbatim>\<open>error\<close>, the chain stops. The
  response is 200 with that result as payload (with the debug log attached when asked
  for); no request was sent to the Snaptik endpoint and neither the loop's nor the
  Snaptik adapter's log entry for Snaptik exists: the second provider was not invoked.
  Whatever providers follow TikWM in the list, the accepted result is the same.
\<close>

theorem first_provider_short_circuits:
  assumes "rq_method req = ''POST''"
    and "read_input env (rq_body req) = JObj kvs"
    and "getp (JObj kvs) ''url'' = JStr u" and "u \<noteq> []"
    and "detectPlatform (str_trim env u) = ''tiktok''"
    and "providerTikwm env (str_trim env u)
           (js_or (getp (JObj kvs) ''downloadMode'') (JStr ''auto''))
           (js_or (getp (JObj kvs) ''videoQuality'') (JStr ''720''))
           ''tiktok'' (push_log ''Trying provider: providerTikwm'' fresh) = (Inr r, st)"
    and "accepted r"
  shows "resolve_handler env req
           = (json_res 200
                (with_debug (rq_debug req) (push_log ''Success with providerTikwm'' st) r),
              push_log ''Success with providerTikwm'' st)
       \<and> (\<forall>rq \<in> set (requests (snd (resolve_handler env req))). req_url rq \<noteq> snaptik_api)
       \<and> ''Trying provider: providerSnaptik'' \<notin> set (debugLog (snd (resolve_handler env req)))
       \<and> ''Snaptik(tik.fail) trying'' \<notin> set (debugLog (snd (resolve_handler env req)))
       \<and> (\<forall>rest. finalResult
             (run_providers env ((''providerTikwm'', providerTikwm env) # rest) (str_trim env u)
                (js_or (getp (JObj kvs) ''downloadMode'') (JStr ''auto''))
                (js_or (getp (JObj kvs) ''videoQuality'') (JStr ''720'')) ''tiktok''
                \<lparr>finalResult = JNull, lastError = JStr [], world = fresh\<rparr>) = r)"
proof -
  let ?st = "push_log ''Success with providerTikwm'' st"
  from assms(7) have tr: "truthy r" by (simp add: accepted_def)
  have handler: "resolve_handler env req
           = (json_res 200 (with_debug (rq_debug req) ?st r), ?st)"
    using assms tr
    by (simp add: resolve_handler_def resolve_try_def Let_def providers_def)
  from tikwm_effects [OF assms(6)]
  have reqs: "set (requests st) \<subseteq> {tikwm_post_request (str_trim env u),
                                        tikwm_get_request (str_trim env u)}"
    and logs: "set (debugLog st) \<subseteq> {''Trying provider: providerTikwm'', ''TikWM trying POST'',
                                      ''TikWM POST failed/empty, trying GET''}"
    by (auto simp: push_log_def fresh_def)
  have r1: "\<forall>rq \<in> set (requests ?st). req_url rq \<noteq> snaptik_api"
    using reqs tikwm_urls [of "str_trim env u"] by (auto simp: push_log_def)
  have l1: "''Trying provider: providerSnaptik'' \<notin> set (debugLog ?st)"
    using logs by (auto simp: push_log_def)
  have l2: "''Snaptik(tik.fail) trying'' \<notin> set (debugLog ?st)"
    using logs by (auto simp: push_log_def)
  have any: "\<forall>rest. finalResult
             (run_providers env ((''providerTikwm'', providerTikwm env) # rest) (str_trim env u)
                (js_or (getp (JObj kvs) ''downloadMode'') (JStr ''auto''))
                (js_or (getp (JObj kvs) ''videoQuality'') (JStr ''720'')) ''tiktok''
                \<lparr>finalResult = JNull, lastError = JStr [], world = fresh\<rparr>) = r"
    using assms(6,7) by simp
  from handler r1 l1 l2 any show ?thesis by simp
qed







lemma resolve_try_body:
  assumes "resolve_try env req st = (Inr res, st')"
  shows "res_status res = 200
       \<and> (\<exists>b. res_body res = Some b
              \<and> (accepted b \<or> (getp b ''status'' = JStr ''error'' \<and> (\<exists>t. getp b ''text'' = JStr t))))"
proof -
  let ?input = "read_input env (rq_body req)"
  show ?thesis
  proof (cases "\<not> truthy ?input \<or> \<not> is_object ?input \<or> \<not> truthy (getp ?input ''url'')")
    case True
    with assms show ?thesis
      by (auto simp: resolve_try_def Let_def json_res_def)
  next
    case False
    then obtain u where u: "getp ?input ''url'' = JStr u"
      using assms by (auto simp: resolve_try_def Let_def split: jsval.splits)
    let ?c = "run_providers env (providers env) (str_trim env u)
                (js_or (getp ?input ''downloadMode'') (JStr ''auto''))
                (js_or (getp ?input ''videoQuality'') (JStr ''720''))
                (detectPlatform (str_trim env u))
                \<lparr>finalResult = JNull, lastError = JStr [], world = st\<rparr>"
    have fin: "\<not> truthy (finalResult ?c) \<or> accepted (finalResult ?c)"
      by (rule run_providers_final) simp
    show ?thesis
    proof (cases "truthy (finalResult ?c)")
      case True
      with fin have "accepted (finalResult ?c)" by blast
      then have "accepted (with_debug (rq_debug req) (world ?c) (finalResult ?c))"
        by (rule accepted_with_debug)
      with assms False u True show ?thesis
        by (auto simp: resolve_try_def Let_def json_res_def)
    next
      case nf: False
      with assms False u show ?thesis
        by (auto simp: resolve_try_def Let_def json_res_def error_with_debug split: sum.splits)
    qed
  qed
qed

text \<open>
  C8. The handler answers 200 when the method is GET, POST or OPTIONS, and 405 exactly
  when it is none of them. For a POST the payload is either a provider's accepted
  result or carries status \<^verbatim>\<open>error\<close> and a text: that is so when the URL is missing
  (\<^verbatim>\<open>URL diperlukan\<close>), when the providers fail, and when an exception reaches the
  outer \<^verbatim>\<open>catch\<close> (\<^verbatim>\<open>Server Error: \<close> and the message).
\<close>

theorem handler_status_codes:
  "res_status (fst (resolve_handler env req))
     = (if rq_method req = ''GET'' \<or> rq_method req = ''POST'' \<or> rq_method req = ''OPTIONS''
        then 200 else 405)
   \<and> (rq_method req = ''POST'' \<longrightarrow>
        (\<exists>b. res_body (fst (resolve_handler env req)) = Some b
            \<and> (accepted b
               \<or> (getp b ''status'' = JStr ''error'' \<and> (\<exists>t. getp b ''text'' = JStr t)))))
   \<and> (rq_method req = ''POST'' \<and> \<not> truthy (getp (read_input env (rq_body req)) ''url'') \<longrightarrow>
        fst (resolve_handler env req) = json_res 200 (error_result ''URL diperlukan''))
   \<and> (\<forall>e st. rq_method req = ''POST'' \<and> resolve_try env req fresh = (Inl e, st) \<longrightarrow>
        res_status (fst (resolve_handler env req)) = 200
        \<and> (\<exists>b. res_body (fst (resolve_handler env req)) = Some b
              \<and> getp b ''status'' = JStr ''error''
              \<and> getp b ''text'' = JStr (''Server Error: '' @
                   (if err_message e = [] then ''Unknown error'' else err_message e))))"
proof (intro conjI impI allI)
  show "res_status (fst (resolve_handler env req))
     = (if rq_method req = ''GET'' \<or> rq_method req = ''POST'' \<or> rq_method req = ''OPTIONS''
        then 200 else 405)"
  proof (cases "resolve_try env req fresh")
    case (Pair res st)
    then show ?thesis
      using resolve_try_body [of env req fresh _ st]
      by (cases res) (auto simp: resolve_handler_def json_res_def)
  qed
next
  assume post: "rq_method req = ''POST''"
  show "\<exists>b. res_body (fst (resolve_handler env req)) = Some b
            \<and> (accepted b
               \<or> (getp b ''status'' = JStr ''error'' \<and> (\<exists>t. getp b ''text'' = JStr t)))"
  proof (cases "resolve_try env req fresh")
    case (Pair res st)
    then show ?thesis
      using resolve_try_body [of env req fresh _ st] post
      by (cases res) (auto simp: resolve_handler_def json_res_def)
  qed
next
  assume "rq_method req = ''POST'' \<and> \<not> truthy (getp (read_input env (rq_body req)) ''url'')"
  then show "fst (resolve_handler env req) = json_res 200 (error_result ''URL diperlukan'')"
    by (simp add: resolve_handler_def resolve_try_def Let_def)
next
  fix e st
  assume a: "rq_method req = ''POST'' \<and> resolve_try env req fresh = (Inl e, st)"
  then show "res_status (fst (resolve_handler env req)) = 200"
    by (simp add: resolve_handler_def json_res_def)
  from a show "\<exists>b. res_body (fst (resolve_handler env req)) = Some b
              \<and> getp b ''status'' = JStr ''error''
              \<and> getp b ''text'' = JStr (''Server Error: '' @
                   (if err_message e = [] then ''Unknown error'' else err_message e))"
    by (simp add: resolve_handler_def json_res_def)
qed

section \<open>The handler on concrete requests\<close>



lemma demo_tikwm_run:
  assumes "requests st = []"
  shows "providerTikwm (script_env [ok_text doc_play]) tiktok_url format quality ''tiktok'' st
     = (Inr demo_tunnel,
        \<lparr>requests = [tikwm_post_request tiktok_url],
         debugLog = debugLog st @ [''TikWM trying POST'']\<rparr>)"
  using assms
  by (simp add: providerTikwm_def tikwm_load_eq Let_def post_json_def script_env_def
      net_script_def ok_text_def body_of_def parse_text_def table_parse_def doc_play_def
      tikwm_retry_def tikwm_build_def mainUrl_def hdUrl_def sdUrl_def wmUrl_def
      musicUrl_def audioUrl_def js_or_def js_and_def js_string_def tikwm_variants_def
      opt_chain_def demo_tunnel_def)

lemma demo_tiktok_url:
  "ascii_trim tiktok_url = tiktok_url" "detectPlatform tiktok_url = ''tiktok''"
  by (simp_all add: ascii_trim_def tiktok_url_def detectPlatform_def test_ci_def lower_char_def)

lemma demo_input:
  "read_input (script_env script) (rq_body (post_req u)) = JObj [(''url'', JStr u)]"
  "rq_method (post_req u) = ''POST''" "rq_debug (post_req u) = False"
  "str_trim (script_env script) = ascii_trim"
  "num_str (script_env script) 0 = ''0''"
  by (simp_all add: read_input_def post_req_def script_env_def)

theorem first_provider_short_circuits_witness:
  "resolve_handler (script_env [ok_text doc_play]) (post_req tiktok_url)
     = (json_res 200 demo_tunnel,
        \<lparr>requests = [tikwm_post_request tiktok_url],
         debugLog = [''Trying provider: providerTikwm'', ''TikWM trying POST'',
                     ''Success with providerTikwm'']\<rparr>)"
proof -
  let ?env = "script_env [ok_text doc_play]"
  have run: "providerTikwm ?env (str_trim ?env tiktok_url)
           (js_or (getp (JObj [(''url'', JStr tiktok_url)]) ''downloadMode'') (JStr ''auto''))
           (js_or (getp (JObj [(''url'', JStr tiktok_url)]) ''videoQuality'') (JStr ''720''))
           ''tiktok'' (push_log ''Trying provider: providerTikwm'' fresh)
         = (Inr demo_tunnel,
            \<lparr>requests = [tikwm_post_request tiktok_url],
             debugLog = [''Trying provider: providerTikwm'', ''TikWM trying POST'']\<rparr>)"
    by (simp add: demo_input demo_tiktok_url demo_tikwm_run push_log_def fresh_def)
  have acc: "accepted demo_tunnel" by (simp add: accepted_def demo_tunnel_def)
  have u: "getp (JObj [(''url'', JStr tiktok_url)]) ''url'' = JStr tiktok_url" by simp
  have ne: "tiktok_url \<noteq> []" by (simp add: tiktok_url_def)
  have pf: "detectPlatform (str_trim ?env tiktok_url) = ''tiktok''"
    by (simp add: demo_input demo_tiktok_url)
  from first_provider_short_circuits [OF demo_input(2) demo_input(1) u ne pf run acc]
  show ?thesis by (simp add: with_debug_def demo_input push_log_def)
qed






theorem handler_status_codes_witness:
  "res_status (fst (resolve_handler (script_env []) (plain_req ''DELETE'' JUndefined))) = 405
   \<and> fst (resolve_handler (script_env []) (plain_req ''OPTIONS'' JUndefined))
       = \<lparr>res_status = 200, res_body = None\<rparr>
   \<and> fst (resolve_handler (script_env []) (plain_req ''POST'' (JObj [])))
       = json_res 200 (error_result ''URL diperlukan'')
   \<and> fst (resolve_handler (script_env []) (plain_req ''POST'' (JObj [(''url'', JNum 5)])))
       = json_res 200 (error_result ''Server Error: input.url.trim is not a function'')"
proof -
  have thrown: "resolve_try (script_env []) (plain_req ''POST'' (JObj [(''url'', JNum 5)])) fresh
     = (Inl (JsError ''input.url.trim is not a function''), fresh)"
    by (simp add: resolve_try_def read_input_def plain_req_def Let_def)
  have dev: "\<not> development (script_env [])" by (simp add: script_env_def)
  show ?thesis
    using handler_status_codes [of "script_env []" "plain_req ''DELETE'' JUndefined"]
      handler_status_codes [of "script_env []" "plain_req ''OPTIONS'' JUndefined"]
      handler_status_codes [of "script_env []" "plain_req ''POST'' (JObj [])"]
      handler_status_codes [of "script_env []" "plain_req ''POST'' (JObj [(''url'', JNum 5)])"]
      thrown dev
    by (auto simp: resolve_handler_def plain_req_def read_input_def error_result_def
        json_res_def resolve_try_def)
qed



section \<open>The size probe: results\<close>

text \<open>
  C4. The claim wants \<^verbatim>\<open>formatBytes(0)\<close> to be \<^verbatim>\<open>0 Bytes\<close>. The guard of line 77 comes
  first and is true for 0, so the function returns \<^verbatim>\<open>Unknown\<close> there and the guard of
  line 78 never decides anything: the function is \<^verbatim>\<open>Unknown\<close> on every falsy input and the
  numeric formatting on every other.
\<close>

theorem formatBytes_zero_is_unknown:
  "formatBytes env (JNum 0) = ''Unknown''
   \<and> formatBytes env (JNum 0) \<noteq> ''0 Bytes''
   \<and> formatBytes env JNull = ''Unknown''
   \<and> (\<forall>bytes. formatBytes env bytes
        = (if truthy bytes then float_format env bytes else ''Unknown''))"
  by (auto simp: formatBytes_def)

lemma match_total_Some:
  "match_total s = Some ds \<Longrightarrow>
     (\<exists>pre. s = pre @ CHR ''/'' # ds) \<and> ds \<noteq> [] \<and> list_all is_digit ds"
proof (induction s)
  case Nil
  then show ?case by simp
next
  case (Cons c cs)
  show ?case
  proof (cases "c = CHR ''/'' \<and> cs \<noteq> [] \<and> list_all is_digit cs")
    case True
    with Cons.prems have "ds = cs" by simp
    with True have "c # cs = [] @ CHR ''/'' # ds" by simp
    with True \<open>ds = cs\<close> show ?thesis by blast
  next
    case False
    with Cons.prems have "match_total cs = Some ds" by auto
    with Cons.IH obtain pre where "cs = pre @ CHR ''/'' # ds" "ds \<noteq> []" "list_all is_digit ds"
      by blast
    then have "c # cs = (c # pre) @ CHR ''/'' # ds" by simp
    with \<open>ds \<noteq> []\<close> \<open>list_all is_digit ds\<close> show ?thesis by blast
  qed
qed

lemma fallback_eq:
  "range_fallback env url sz st =
     (case net env (requests st @ [range_request url]) of
        Rejected e \<Rightarrow> sz
      | Responded rr \<Rightarrow>
          if resp_ok rr then
            (let size1 = (if str_truthy (header_get rr ''content-range'')
                          then (case match_total (the (header_get rr ''content-range'')) of
                                  Some ds \<Rightarrow> Some ds | None \<Rightarrow> sz)
                          else sz)
             in if str_truthy size1 then size1 else header_get rr ''content-length'')
          else sz,
      st\<lparr>requests := requests st @ [range_request url]\<rparr>)"
  by (auto simp: range_fallback_def fetch_def Let_def split: fetch_outcome.splits)

lemma demo_range: "match_total ''bytes 0-0/500000'' = Some ''500000''"
  by (simp add: is_digit_def)

lemma demo_parse: "parseInt10 env ''500000'' = Some 500000"
  by (simp add: parseInt10_def Let_def js_space_def is_digit_def digits_value_def digit_val_def)

text \<open>
  C7 (amended). For a size-probe request whose HEAD response is ok and carries no
  content-length (or an empty one), a ranged GET is issued. If that GET answers with an
  ok status and the content-range \<^verbatim>\<open>bytes 0-0/500000\<close>, the reported size is the number
  500000; if it answers with an ok status and no content-range, its own content-length
  is used; if it answers with a status that is not ok, the size stays \<^verbatim>\<open>null\<close>.
\<close>

theorem range_fallback_size:
  assumes "rq_method req \<noteq> ''OPTIONS''"
    and "rq_url req = Some url" and "url \<noteq> []"
    and "net env [head_request url] = Responded r"
    and "resp_ok r"
    and "\<not> str_truthy (header_get r ''content-length'')"
  shows "requests (snd (filesize_handler env req)) = [head_request url, range_request url]
       \<and> res_status (fst (filesize_handler env req)) = 200
       \<and> (\<forall>rr. net env [head_request url, range_request url] = Responded rr \<and> resp_ok rr
                 \<and> header_get rr ''content-range'' = Some ''bytes 0-0/500000'' \<longrightarrow>
               fst (filesize_handler env req)
                 = json_res 200 (probe_body env (Some ''500000'') (header_get r ''content-type''))
               \<and> getp (probe_body env (Some ''500000'') (header_get r ''content-type'')) ''size''
                   = JNum 500000)
       \<and> (\<forall>rr. net env [head_request url, range_request url] = Responded rr \<and> resp_ok rr
                 \<and> header_get rr ''content-range'' = None \<longrightarrow>
               fst (filesize_handler env req)
                 = json_res 200
                     (probe_body env (header_get rr ''content-length'')
                        (header_get r ''content-type'')))
       \<and> (\<forall>rr. net env [head_request url, range_request url] = Responded rr \<and> \<not> resp_ok rr \<longrightarrow>
               fst (filesize_handler env req)
                 = json_res 200
                     (probe_body env (header_get r ''content-length'')
                        (header_get r ''content-type''))
               \<and> getp (probe_body env (header_get r ''content-length'')
                          (header_get r ''content-type'')) ''size'' = JNull)"
proof -
  have run: "filesize_handler env req =
      (json_res 200
         (probe_body env (fst (range_fallback env url (header_get r ''content-length'')
                                 \<lparr>requests = [head_request url], debugLog = []\<rparr>))
            (header_get r ''content-type'')),
       snd (range_fallback env url (header_get r ''content-length'')
              \<lparr>requests = [head_request url], debugLog = []\<rparr>))"
    using assms
    by (simp add: filesize_handler_def fetch_def Let_def fresh_def str_truthy_def
        split: prod.splits)
  have sz: "getp (probe_body env (Some ''500000'') ty) ''size'' = JNum 500000" for ty
    by (simp add: probe_body_def str_truthy_def demo_parse)
  have nul: "getp (probe_body env (header_get r ''content-length'') ty) ''size'' = JNull" for ty
    using assms(6) by (simp add: probe_body_def)
  show ?thesis
    using assms(6) sz nul
    by (auto simp: run fallback_eq Let_def json_res_def str_truthy_def is_digit_def
        split: option.splits)
qed

theorem range_fallback_size_witness:
  "fst (filesize_handler
     (script_env [with_headers True [(''content-type'', ''video/mp4'')],
                  with_headers True [(''content-range'', ''bytes 0-0/500000'')]])
     (probe_req probe_url))
   = json_res 200
        (JObj [(''size'', JNum 500000), (''type'', JStr ''video/mp4''),
               (''formatted'', JStr ''488.28 KB'')])
   \<and> requests (snd (filesize_handler
     (script_env [with_headers True [(''content-type'', ''video/mp4'')],
                  with_headers True [(''content-range'', ''bytes 0-0/500000'')]])
     (probe_req probe_url)))
   = [head_request probe_url, range_request probe_url]"
proof -
  let ?env = "script_env [with_headers True [(''content-type'', ''video/mp4'')],
                  with_headers True [(''content-range'', ''bytes 0-0/500000'')]]"
  let ?r = "\<lparr>resp_ok = True, resp_headers = [(''content-type'', ''video/mp4'')],
            resp_text = Inr []\<rparr>"
  let ?rr = "\<lparr>resp_ok = True, resp_headers = [(''content-range'', ''bytes 0-0/500000'')],
            resp_text = Inr []\<rparr>"
  have m: "rq_method (probe_req probe_url) \<noteq> ''OPTIONS''" by (simp add: probe_req_def)
  have u: "rq_url (probe_req probe_url) = Some probe_url" by (simp add: probe_req_def)
  have ne: "probe_url \<noteq> []" by (simp add: probe_url_def)
  have h: "net ?env [head_request probe_url] = Responded ?r"
    by (simp add: script_env_def net_script_def with_headers_def)
  have ok: "resp_ok ?r" by simp
  have nl: "\<not> str_truthy (header_get ?r ''content-length'')"
    by (simp add: header_get_def str_truthy_def)
  have g: "net ?env [head_request probe_url, range_request probe_url] = Responded ?rr"
    by (simp add: script_env_def net_script_def with_headers_def)
  have ok2: "resp_ok ?rr" by simp
  have cr: "header_get ?rr ''content-range'' = Some ''bytes 0-0/500000''"
    by (simp add: header_get_def)
  have body: "probe_body ?env (Some ''500000'') (header_get ?r ''content-type'')
     = JObj [(''size'', JNum 500000), (''type'', JStr ''video/mp4''),
             (''formatted'', JStr ''488.28 KB'')]"
    by (simp add: probe_body_def str_truthy_def demo_parse header_get_def formatBytes_def
        script_env_def table_format_def)
  from range_fallback_size [OF m u ne h ok nl] g ok2 cr body
  show ?thesis by metis
qed

text \<open>
  The claim as first stated fails: a ranged GET answered with a status that is not ok
  and the content-range \<^verbatim>\<open>bytes 0-0/500000\<close> leaves the size \<^verbatim>\<open>null\<close>.
\<close>

theorem range_fallback_counterexample:
  "net (script_env [with_headers True [],
                    with_headers False [(''content-range'', ''bytes 0-0/500000'')]])
       [head_request probe_url, range_request probe_url]
     = with_headers False [(''content-range'', ''bytes 0-0/500000'')]
   \<and> filesize_handler
       (script_env [with_headers True [],
                    with_headers False [(''content-range'', ''bytes 0-0/500000'')]])
       (probe_req probe_url)
     = (json_res 200
          (JObj [(''size'', JNull), (''type'', JNull), (''formatted'', JStr ''Unknown'')]),
        \<lparr>requests = [head_request probe_url, range_request probe_url], debugLog = []\<rparr>)"
  by (simp add: filesize_handler_def fallback_eq fetch_def Let_def fresh_def probe_req_def
      probe_url_def str_truthy_def header_get_def script_env_def net_script_def
      with_headers_def probe_body_def)

end
